theory Spec2Isabelle
  imports Complex_Main
begin

section \<open>The RL training front end and the session contract it talks to\<close>

text \<open>
  The TypeScript front end (Redux slices, the REST client \<^verbatim>\<open>services/api.ts\<close>, the
  WebSocket hook \<^verbatim>\<open>hooks/useRealtimeTraining.ts\<close> and the canvas/format helpers) is
  embedded function by function. A JavaScript \<^verbatim>\<open>number\<close> that holds a grid coordinate,
  a grid size or an action index is an \<^typ>\<open>int\<close>; a hyperparameter or a metric is a
  \<^typ>\<open>real\<close>. Where the code writes a number into a string or reads one from it (the
  state keys), the number is the natural number a double holds, and the rounding of
  doubles is part of the model. An optional field \<^verbatim>\<open>f?: T\<close> is a \<^typ>\<open>'a option\<close>,
  \<^const>\<open>None\<close> standing for \<^verbatim>\<open>undefined\<close>. NaN is not part of the model.
\<close>

subsection \<open>JavaScript operators used by the code\<close>

text \<open>\<^verbatim>\<open>a ?? d\<close>: the default is taken only when the left operand is \<^verbatim>\<open>undefined\<close>.\<close>

definition nullish :: "'a option \<Rightarrow> 'a \<Rightarrow> 'a" where
  "nullish a d = (case a of None \<Rightarrow> d | Some v \<Rightarrow> v)"

text \<open>\<^verbatim>\<open>a || d\<close> on numbers: the default is taken when the left operand is
  \<^verbatim>\<open>undefined\<close> or \<^verbatim>\<open>0\<close> (both are falsy).\<close>

definition falsy_or :: "'a::zero option \<Rightarrow> 'a \<Rightarrow> 'a" where
  "falsy_or a d = (case a of None \<Rightarrow> d | Some v \<Rightarrow> if v = 0 then d else v)"

text \<open>\<^verbatim>\<open>s || d\<close> on the result of an object lookup \<^verbatim>\<open>table[k]\<close>: the default is
  taken when the key is absent or the stored string is empty.\<close>

definition falsy_or_str :: "string option \<Rightarrow> string \<Rightarrow> string" where
  "falsy_or_str a d = (case a of None \<Rightarrow> d | Some s \<Rightarrow> if s = [] then d else s)"

subsection \<open>Rendering and reading decimal numbers\<close>

definition digit_char :: "nat \<Rightarrow> char" where
  "digit_char d = ''0123456789'' ! d"

definition is_digit :: "char \<Rightarrow> bool" where
  "is_digit c = (48 \<le> (of_char c :: nat) \<and> (of_char c :: nat) \<le> 57)"

definition digit_val :: "char \<Rightarrow> nat" where
  "digit_val c = of_char c - 48"

fun digits10 :: "nat \<Rightarrow> string" where
  "digits10 n = (if n < 10 then [digit_char n] else digits10 (n div 10) @ [digit_char (n mod 10)])"

declare digits10.simps [simp del]

subsection \<open>Numbers as the language holds them\<close>

text \<open>
  A \<^verbatim>\<open>number\<close> is a double. The numbers rendered and parsed here are natural numbers,
  and a natural number is a value of the type exactly when it fits in 53 significant
  bits: every natural number up to \<open>2\<^sup>5\<^sup>3\<close>, and beyond it the multiples of the spacing
  \<open>2\<^sup>e\<close> with \<open>e\<close> the bit length minus 53. Turning a mathematical integer into a number
  rounds to the nearest such value, a tie going to the even significand.
\<close>

fun bit_length :: "nat \<Rightarrow> nat" where
  "bit_length n = (if n = 0 then 0 else Suc (bit_length (n div 2)))"

declare bit_length.simps [simp del]

definition representable :: "nat \<Rightarrow> bool" where
  "representable n = (n mod 2 ^ (bit_length n - 53) = 0)"

definition round_to_double :: "nat \<Rightarrow> nat" where
  "round_to_double n =
     (let e = bit_length n - 53; q = n div 2 ^ e; r = n mod 2 ^ e
      in if 2 * r < 2 ^ e then q * 2 ^ e
         else if 2 * r > 2 ^ e then (q + 1) * 2 ^ e
         else if even q then q * 2 ^ e else (q + 1) * 2 ^ e)"

text \<open>A parsed number: a finite value, or \<^verbatim>\<open>Infinity\<close> when the digits exceed the range
  of the type (the rounded value reaches \<open>2\<^sup>1\<^sup>0\<^sup>2\<^sup>4\<close>).\<close>

datatype js_number = Finite nat | Infinity

subsection \<open>State keys: \<^verbatim>\<open>createStateKey\<close> and \<^verbatim>\<open>parseStateKey\<close>\<close>

text \<open>
  The template literal of \<^verbatim>\<open>createStateKey\<close> renders each coordinate with the
  language's number-to-string conversion. For a number \<open>x\<close> the conversion takes the
  fewest significant digits \<open>s\<close> such that \<open>s \<times> 10\<^sup>j\<close> still reads back as \<open>x\<close>; among
  the candidates with that many digits it takes the one nearest to \<open>x\<close>, and the even
  one of two equally near. \<open>best_at x j\<close> is that choice for \<open>j\<close> dropped digits: the
  only candidates are \<open>x\<close> cut down to its leading digits and that plus one (which
  becomes a single digit 1 one place higher when it carries). \<open>shortest x\<close> tries
  \<open>j\<close> from the largest down, that is the number of digits from one up.
\<close>

definition carry :: "nat \<Rightarrow> nat \<Rightarrow> nat \<Rightarrow> nat \<times> nat" where
  "carry hi j k = (if hi = 10 ^ k then (1, j + k) else (hi, j))"

definition best_at :: "nat \<Rightarrow> nat \<Rightarrow> (nat \<times> nat) option" where
  "best_at x j =
     (let p = 10 ^ j; lo = x div p; hi = lo + 1; r = x mod p;
          k = length (digits10 x) - j;
          ok_lo = (round_to_double (lo * p) = x);
          ok_hi = (round_to_double (hi * p) = x);
          up = carry hi j k
      in if ok_lo \<and> ok_hi
         then (if 2 * r < p then Some (lo, j)
               else if 2 * r > p then Some up
               else if even lo then Some (lo, j) else Some up)
         else if ok_lo then Some (lo, j)
         else if ok_hi then Some up
         else None)"

fun first_some :: "('a \<Rightarrow> 'b option) \<Rightarrow> 'a list \<Rightarrow> 'b option" where
  "first_some f [] = None"
| "first_some f (a # as) = (case f a of Some b \<Rightarrow> Some b | None \<Rightarrow> first_some f as)"

definition shortest :: "nat \<Rightarrow> nat \<times> nat" where
  "shortest x =
     (case first_some (best_at x) (rev [0 ..< length (digits10 x)]) of
        Some c \<Rightarrow> c
      | None \<Rightarrow> (x, 0))"

text \<open>
  Below \<open>10\<^sup>2\<^sup>1\<close> the conversion writes the digits of \<open>s\<close> followed by \<open>j\<close> zeros; from
  \<open>10\<^sup>2\<^sup>1\<close> on it writes the exponent form: the first digit of \<open>s\<close>, the remaining digits
  after a point if there are any, then \<^verbatim>\<open>e+\<close> and the decimal exponent (so \<open>10\<^sup>2\<^sup>1\<close> is
  \<^verbatim>\<open>1e+21\<close>, and \<open>2\<^sup>6\<^sup>4\<close> is \<^verbatim>\<open>18446744073709552000\<close>).
\<close>

definition number_to_string :: "nat \<Rightarrow> string" where
  "number_to_string x =
     (case shortest x of
        (s, j) \<Rightarrow>
          if x < 1000000000000000000000 then digits10 s @ replicate j (CHR ''0'')
          else (case digits10 s of
                  [] \<Rightarrow> []
                | c # rest \<Rightarrow>
                    c # (if rest = [] then [] else CHR ''.'' # rest)
                    @ ''e+'' @ digits10 (length (digits10 s) + j - 1)))"

text \<open>\<^verbatim>\<open>String(i)\<close> for an integer: an optional minus sign and the rendering of its
  absolute value.\<close>

definition int_to_string :: "int \<Rightarrow> string" where
  "int_to_string i =
     (if i < 0 then CHR ''-'' # number_to_string (nat (- i)) else number_to_string (nat i))"

definition createStateKey :: "nat \<Rightarrow> nat \<Rightarrow> string" where
  "createStateKey x y = ''('' @ number_to_string x @ '', '' @ number_to_string y @ '')''"

text \<open>
  \<^verbatim>\<open>key.match(/\((\d+),\s*(\d+)\)/)\<close>: the pattern is not anchored, so the match is
  tried at every position from the left. At one position: an opening parenthesis, a
  longest run of digits (not empty), a comma, a longest run of white space, a longest run
  of digits (not empty) and a closing parenthesis. Taking the longest run each time is
  what the backtracking matcher finds, since the character that must follow a run is
  never one the run itself accepts.

  A string is the list of the bytes of its UTF-8 encoding. The white space of the pattern
  is the ASCII white space (tab, line feed, vertical tab, form feed, carriage return,
  space) and the characters U+00A0, U+1680, U+2000 to U+200A, U+2028, U+2029, U+202F,
  U+205F, U+3000 and U+FEFF, each of them two or three bytes long.
\<close>

definition is_space :: "char \<Rightarrow> bool" where
  "is_space c = ((of_char c :: nat) \<in> {9, 10, 11, 12, 13, 32})"

definition unicode_spaces :: "nat list list" where
  "unicode_spaces =
     [[0xC2, 0xA0], [0xE1, 0x9A, 0x80],
      [0xE2, 0x80, 0x80], [0xE2, 0x80, 0x81], [0xE2, 0x80, 0x82], [0xE2, 0x80, 0x83],
      [0xE2, 0x80, 0x84], [0xE2, 0x80, 0x85], [0xE2, 0x80, 0x86], [0xE2, 0x80, 0x87],
      [0xE2, 0x80, 0x88], [0xE2, 0x80, 0x89], [0xE2, 0x80, 0x8A],
      [0xE2, 0x80, 0xA8], [0xE2, 0x80, 0xA9], [0xE2, 0x80, 0xAF], [0xE2, 0x81, 0x9F],
      [0xE3, 0x80, 0x80], [0xEF, 0xBB, 0xBF]]"

definition space_width :: "string \<Rightarrow> nat" where
  "space_width s =
     (case s of
        [] \<Rightarrow> 0
      | c # _ \<Rightarrow>
          if is_space c then 1
          else (case find (\<lambda>p. take (length p) (map of_char s) = p) unicode_spaces of
                  Some p \<Rightarrow> length p
                | None \<Rightarrow> 0))"

function drop_spaces :: "string \<Rightarrow> string" where
  "drop_spaces s = (if space_width s = 0 then s else drop_spaces (drop (space_width s) s))"
  by pat_completeness auto
termination
proof (relation "measure length")
  show "wf (measure length)" by simp
next
  fix s :: string
  assume "space_width s \<noteq> 0"
  then have "s \<noteq> []" by (auto simp: space_width_def)
  with \<open>space_width s \<noteq> 0\<close> show "(drop (space_width s) s, s) \<in> measure length"
    by simp
qed

declare drop_spaces.simps [simp del]

definition match_at :: "string \<Rightarrow> (string \<times> string) option" where
  "match_at s =
     (case s of
        [] \<Rightarrow> None
      | c # r \<Rightarrow>
          if c \<noteq> CHR ''('' then None
          else let d1 = takeWhile is_digit r; r1 = dropWhile is_digit r in
            if d1 = [] then None
            else (case r1 of
                    [] \<Rightarrow> None
                  | c1 # r2 \<Rightarrow>
                      if c1 \<noteq> CHR '','' then None
                      else let r3 = drop_spaces r2;
                               d2 = takeWhile is_digit r3;
                               r4 = dropWhile is_digit r3 in
                        if d2 = [] then None
                        else (case r4 of
                                [] \<Rightarrow> None
                              | c2 # _ \<Rightarrow> if c2 = CHR '')'' then Some (d1, d2) else None)))"

fun regex_search :: "string \<Rightarrow> (string \<times> string) option" where
  "regex_search [] = match_at []"
| "regex_search (c # t) =
     (case match_at (c # t) of Some m \<Rightarrow> Some m | None \<Rightarrow> regex_search t)"

text \<open>\<^verbatim>\<open>parseInt\<close> on a captured group, which is a run of decimal digits: the number
  nearest to the integer the digits denote.\<close>

definition decimal_value :: "string \<Rightarrow> nat" where
  "decimal_value ds = foldl (\<lambda>a c. a * 10 + digit_val c) 0 ds"

definition parseInt :: "string \<Rightarrow> js_number" where
  "parseInt ds =
     (let v = round_to_double (decimal_value ds)
      in if v < 2 ^ 1024 then Finite v else Infinity)"

definition parseStateKey :: "string \<Rightarrow> (js_number \<times> js_number) option" where
  "parseStateKey key =
     (case regex_search key of
        Some (a, b) \<Rightarrow> Some (parseInt a, parseInt b)
      | None \<Rightarrow> None)"

text \<open>A run of digits as the pattern captures it.\<close>

definition digit_run :: "string \<Rightarrow> bool" where
  "digit_run ds = (ds \<noteq> [] \<and> list_all is_digit ds)"

subsection \<open>The environment slice: \<^verbatim>\<open>setGridSize\<close>\<close>

datatype EnvironmentType = gridworld | frozen_lake | breakout

record EnvironmentConfig =
  gridSize :: int
  agentPosition :: "int \<times> int"
  goalPosition :: "int \<times> int"
  isSlippery :: "bool option"
  numBrickRows :: "int option"

record BreakoutState =
  paddlePosition :: int
  ballPosition :: "int \<times> int"
  bricks :: "(int \<times> int) list"
  score :: int

record EnvState =
  selectedEnvironment :: EnvironmentType
  config :: EnvironmentConfig
  isCreated :: bool
  currentPosition :: "int \<times> int"
  isTerminated :: bool
  breakoutState :: "BreakoutState option"

definition env_initialState :: EnvState where
  "env_initialState =
     \<lparr> selectedEnvironment = gridworld,
       config = \<lparr> gridSize = 4, agentPosition = (0, 0), goalPosition = (3, 3),
                  isSlippery = Some False, numBrickRows = Some 2 \<rparr>,
       isCreated = False, currentPosition = (0, 0), isTerminated = False,
       breakoutState = None \<rparr>"

text \<open>The reducer assigns the new size and then runs its four \<^verbatim>\<open>if\<close> statements in
  the order of the source: goal x, goal y, agent x, agent y.\<close>

definition setGridSize :: "EnvState \<Rightarrow> int \<Rightarrow> EnvState" where
  "setGridSize state payload =
     (let c0 = (config state) \<lparr> gridSize := payload \<rparr>;
          c1 = (if fst (goalPosition c0) \<ge> payload
                then c0 \<lparr> goalPosition := (payload - 1, snd (goalPosition c0)) \<rparr> else c0);
          c2 = (if snd (goalPosition c1) \<ge> payload
                then c1 \<lparr> goalPosition := (fst (goalPosition c1), payload - 1) \<rparr> else c1);
          c3 = (if fst (agentPosition c2) \<ge> payload
                then c2 \<lparr> agentPosition := (payload - 1, snd (agentPosition c2)) \<rparr> else c2);
          c4 = (if snd (agentPosition c3) \<ge> payload
                then c3 \<lparr> agentPosition := (fst (agentPosition c3), payload - 1) \<rparr> else c3)
      in state \<lparr> config := c4 \<rparr>)"

text \<open>What the reducer does to one coordinate.\<close>

definition clamp_coord :: "int \<Rightarrow> int \<Rightarrow> int" where
  "clamp_coord n c = (if c \<ge> n then n - 1 else c)"

subsection \<open>Action rendering tables\<close>

text \<open>The arrows are the UTF-8 encodings of U+2191, U+2193, U+2190 and U+2192.\<close>

definition arrow_up :: string where
  "arrow_up = [char_of (0xE2::nat), char_of (0x86::nat), char_of (0x91::nat)]"

definition arrow_down :: string where
  "arrow_down = [char_of (0xE2::nat), char_of (0x86::nat), char_of (0x93::nat)]"

definition arrow_left :: string where
  "arrow_left = [char_of (0xE2::nat), char_of (0x86::nat), char_of (0x90::nat)]"

definition arrow_right :: string where
  "arrow_right = [char_of (0xE2::nat), char_of (0x86::nat), char_of (0x92::nat)]"

definition ACTION_SYMBOLS :: "int \<rightharpoonup> string" where
  "ACTION_SYMBOLS = [0 \<mapsto> arrow_up, 1 \<mapsto> arrow_down, 2 \<mapsto> arrow_left, 3 \<mapsto> arrow_right]"

definition ACTION_NAMES :: "int \<rightharpoonup> string" where
  "ACTION_NAMES = [0 \<mapsto> ''Up'', 1 \<mapsto> ''Down'', 2 \<mapsto> ''Left'', 3 \<mapsto> ''Right'']"

definition formatActionName :: "int \<Rightarrow> string" where
  "formatActionName action =
     (let actions = [0 \<mapsto> ''Up'', 1 \<mapsto> ''Down'', 2 \<mapsto> ''Left'', 3 \<mapsto> ''Right'']
      in falsy_or_str (actions action) (''Action '' @ int_to_string action))"

definition getArrow :: "int option \<Rightarrow> string" where
  "getArrow action =
     (case action of
        None \<Rightarrow> ''''
      | Some a \<Rightarrow>
          (let arrows = [0 \<mapsto> arrow_up, 1 \<mapsto> arrow_down, 2 \<mapsto> arrow_left, 3 \<mapsto> arrow_right]
           in falsy_or_str (arrows a) ''''))"

subsection \<open>Algorithm and environment identifiers\<close>

text \<open>\<^verbatim>\<open>AlgorithmType\<close> and \<^verbatim>\<open>EnvironmentType\<close> are unions of string literals; the
  functions below give the string each member is at run time.\<close>

datatype AlgorithmType =
  value_iteration | policy_iteration | mc_first_visit | mc_every_visit | mc_control
  | td_zero | sarsa | n_step_td

fun algorithm_literal :: "AlgorithmType \<Rightarrow> string" where
  "algorithm_literal value_iteration = ''value_iteration''"
| "algorithm_literal policy_iteration = ''policy_iteration''"
| "algorithm_literal mc_first_visit = ''mc_first_visit''"
| "algorithm_literal mc_every_visit = ''mc_every_visit''"
| "algorithm_literal mc_control = ''mc_control''"
| "algorithm_literal td_zero = ''td_zero''"
| "algorithm_literal sarsa = ''sarsa''"
| "algorithm_literal n_step_td = ''n_step_td''"

fun environment_literal :: "EnvironmentType \<Rightarrow> string" where
  "environment_literal gridworld = ''gridworld''"
| "environment_literal frozen_lake = ''frozen_lake''"
| "environment_literal breakout = ''breakout''"

text \<open>The identifiers the backend documents as its stable strings.\<close>

definition spec_algorithm_ids :: "string list" where
  "spec_algorithm_ids =
     [''value_iteration'', ''policy_iteration'', ''monte_carlo_first_visit'',
      ''monte_carlo_every_visit'', ''monte_carlo_control'', ''td_zero'', ''sarsa'',
      ''n_step_td'']"

definition spec_environment_ids :: "string list" where
  "spec_environment_ids = [''gridworld'', ''frozen_lake'', ''breakout'']"

text \<open>\<^verbatim>\<open>mapAlgorithmName\<close> of the WebSocket hook: \<^verbatim>\<open>mapping[algorithm] || algorithm\<close>.\<close>

fun algorithm_mapping :: "AlgorithmType \<Rightarrow> string option" where
  "algorithm_mapping value_iteration = Some ''value_iteration''"
| "algorithm_mapping policy_iteration = Some ''policy_iteration''"
| "algorithm_mapping mc_first_visit = Some ''monte_carlo_first_visit''"
| "algorithm_mapping mc_every_visit = Some ''monte_carlo_every_visit''"
| "algorithm_mapping mc_control = Some ''monte_carlo_control''"
| "algorithm_mapping td_zero = Some ''td_zero''"
| "algorithm_mapping sarsa = Some ''sarsa''"
| "algorithm_mapping n_step_td = Some ''n_step_td''"

definition mapAlgorithmName :: "AlgorithmType \<Rightarrow> string" where
  "mapAlgorithmName algorithm =
     falsy_or_str (algorithm_mapping algorithm) (algorithm_literal algorithm)"

record TrainingConfig =
  cfg_algorithm :: AlgorithmType
  cfg_environment :: EnvironmentType
  cfg_gridSize :: int
  cfg_agentPosition :: "int \<times> int"
  cfg_goalPosition :: "int \<times> int"
  cfg_gamma :: real
  cfg_theta :: real
  cfg_numEpisodes :: int
  cfg_alpha :: real
  cfg_epsilon :: real
  cfg_isSlippery :: "bool option"
  cfg_numBrickRows :: "int option"
  cfg_nSteps :: "int option"

record StartTrainingMessage =
  st_type :: string
  st_algorithm :: string
  st_environment :: string
  st_grid_size :: int
  st_agent_position :: "int \<times> int"
  st_goal_position :: "int \<times> int"
  st_gamma :: real
  st_theta :: real
  st_num_episodes :: int
  st_alpha :: real
  st_epsilon :: real
  st_is_slippery :: "bool option"
  st_num_brick_rows :: "int option"
  st_n_steps :: "int option"

text \<open>The object \<^verbatim>\<open>sendStartTraining\<close> serialises onto the socket; nothing is sent while
  the socket is not open.\<close>

definition start_training_message :: "TrainingConfig \<Rightarrow> StartTrainingMessage" where
  "start_training_message cfg =
     \<lparr> st_type = ''start_training'',
       st_algorithm = mapAlgorithmName (cfg_algorithm cfg),
       st_environment = environment_literal (cfg_environment cfg),
       st_grid_size = cfg_gridSize cfg,
       st_agent_position = cfg_agentPosition cfg,
       st_goal_position = cfg_goalPosition cfg,
       st_gamma = cfg_gamma cfg,
       st_theta = cfg_theta cfg,
       st_num_episodes = cfg_numEpisodes cfg,
       st_alpha = cfg_alpha cfg,
       st_epsilon = cfg_epsilon cfg,
       st_is_slippery = cfg_isSlippery cfg,
       st_num_brick_rows = cfg_numBrickRows cfg,
       st_n_steps = cfg_nSteps cfg \<rparr>"

definition sendStartTraining :: "bool \<Rightarrow> TrainingConfig \<Rightarrow> StartTrainingMessage option" where
  "sendStartTraining socket_open cfg =
     (if \<not> socket_open then None else Some (start_training_message cfg))"

subsection \<open>The REST client: \<^verbatim>\<open>runAlgorithm\<close> and \<^verbatim>\<open>simulatePolicy\<close>\<close>

text \<open>\<^verbatim>\<open>params.gridSize ? params.gridSize - 1 : 3\<close>: the first branch is taken when the
  size is present and not zero.\<close>

definition far_coordinate :: "int option \<Rightarrow> int" where
  "far_coordinate gs = (case gs of None \<Rightarrow> 3 | Some n \<Rightarrow> if n \<noteq> 0 then n - 1 else 3)"

record RunAlgorithmParams =
  ra_algorithm :: AlgorithmType
  ra_gridSize :: "int option"
  ra_agentPosition :: "(int \<times> int) option"
  ra_goalPosition :: "(int \<times> int) option"
  ra_gamma :: "real option"
  ra_theta :: "real option"
  ra_numEpisodes :: "int option"
  ra_alpha :: "real option"
  ra_epsilon :: "real option"

record RunAlgorithmBody =
  rb_algorithm :: string
  rb_grid_size :: int
  rb_agent_position :: "int \<times> int"
  rb_goal_position :: "int \<times> int"
  rb_gamma :: real
  rb_theta :: real
  rb_num_episodes :: int
  rb_alpha :: real
  rb_epsilon :: real

definition runAlgorithm_body :: "RunAlgorithmParams \<Rightarrow> RunAlgorithmBody" where
  "runAlgorithm_body params =
     \<lparr> rb_algorithm = algorithm_literal (ra_algorithm params),
       rb_grid_size = nullish (ra_gridSize params) 4,
       rb_agent_position = nullish (ra_agentPosition params) (0, 0),
       rb_goal_position = nullish (ra_goalPosition params)
          (far_coordinate (ra_gridSize params), far_coordinate (ra_gridSize params)),
       rb_gamma = nullish (ra_gamma params) 0.99,
       rb_theta = nullish (ra_theta params) 0.0001,
       rb_num_episodes = nullish (ra_numEpisodes params) 1000,
       rb_alpha = nullish (ra_alpha params) 0.1,
       rb_epsilon = nullish (ra_epsilon params) 0.1 \<rparr>"

text \<open>A \<^verbatim>\<open>Record<string, number>\<close> that is only passed on is the list of its entries.\<close>

type_synonym policy_table = "(string \<times> int) list"

type_synonym value_table = "(string \<times> real) list"

record SimulatePolicyParams =
  sp_maxSteps :: "int option"
  sp_agentPosition :: "(int \<times> int) option"
  sp_goalPosition :: "int \<times> int"
  sp_gridSize :: "int option"
  sp_gamma :: "real option"
  sp_environment :: "string option"
  sp_policy :: "policy_table option"
  sp_isSlippery :: "bool option"
  sp_numBrickRows :: "int option"

record SimulatePolicyBody =
  sb_max_steps :: int
  sb_agent_position :: "(int \<times> int) option"
  sb_goal_position :: "int \<times> int"
  sb_grid_size :: int
  sb_gamma :: real
  sb_environment :: string
  sb_policy :: "policy_table option"
  sb_is_slippery :: "bool option"
  sb_num_brick_rows :: "int option"

definition simulatePolicy_body :: "SimulatePolicyParams \<Rightarrow> SimulatePolicyBody" where
  "simulatePolicy_body params =
     \<lparr> sb_max_steps = nullish (sp_maxSteps params) 100,
       sb_agent_position = sp_agentPosition params,
       sb_goal_position = sp_goalPosition params,
       sb_grid_size = nullish (sp_gridSize params) 4,
       sb_gamma = nullish (sp_gamma params) 0.99,
       sb_environment = nullish (sp_environment params) ''gridworld'',
       sb_policy = (case sp_policy params of
                      None \<Rightarrow> None
                    | Some pol \<Rightarrow> if length pol > 0 then Some pol else None),
       sb_is_slippery = sp_isSlippery params,
       sb_num_brick_rows = sp_numBrickRows params \<rparr>"

subsection \<open>The parameter slice\<close>

record ParamState =
  gamma :: real
  theta :: real
  numEpisodes :: int
  alpha :: real
  epsilon :: real

definition param_initialState :: ParamState where
  "param_initialState =
     \<lparr> gamma = 0.99, theta = 0.0001, numEpisodes = 1000, alpha = 0.1, epsilon = 0.1 \<rparr>"

text \<open>A call that leaves every optional parameter out.\<close>

definition runAlgorithm_omitted :: "AlgorithmType \<Rightarrow> RunAlgorithmParams" where
  "runAlgorithm_omitted a =
     \<lparr> ra_algorithm = a, ra_gridSize = None, ra_agentPosition = None, ra_goalPosition = None,
       ra_gamma = None, ra_theta = None, ra_numEpisodes = None, ra_alpha = None,
       ra_epsilon = None \<rparr>"

definition simulatePolicy_omitted :: "int \<times> int \<Rightarrow> SimulatePolicyParams" where
  "simulatePolicy_omitted goal =
     \<lparr> sp_maxSteps = None, sp_agentPosition = None, sp_goalPosition = goal, sp_gridSize = None,
       sp_gamma = None, sp_environment = None, sp_policy = None, sp_isSlippery = None,
       sp_numBrickRows = None \<rparr>"

text \<open>The default goal as the interface description words it: the far corner of the
  grid when a nonzero size is supplied, \<open>(3, 3)\<close> otherwise.\<close>

definition default_goal :: "int option \<Rightarrow> int \<times> int" where
  "default_goal sz = (case sz of
       None \<Rightarrow> (3, 3)
     | Some n \<Rightarrow> if n \<noteq> 0 then (n - 1, n - 1) else (3, 3))"

subsection \<open>The algorithm slice and the progress field of the simulation slice\<close>

record AlgoState =
  selectedAlgorithm :: AlgorithmType
  isTrained :: bool
  valueFunction :: value_table
  policy :: policy_table
  qValues :: "(string \<times> value_table) list"

definition algo_initialState :: AlgoState where
  "algo_initialState =
     \<lparr> selectedAlgorithm = value_iteration, isTrained = False, valueFunction = [],
       policy = [], qValues = [] \<rparr>"

definition setTrained :: "AlgoState \<Rightarrow> bool \<Rightarrow> AlgoState" where
  "setTrained state payload = state \<lparr> isTrained := payload \<rparr>"

definition setValueFunction :: "AlgoState \<Rightarrow> value_table \<Rightarrow> AlgoState" where
  "setValueFunction state payload = state \<lparr> valueFunction := payload \<rparr>"

definition setPolicy :: "AlgoState \<Rightarrow> policy_table \<Rightarrow> AlgoState" where
  "setPolicy state payload = state \<lparr> policy := payload \<rparr>"

definition updateCurrentPosition :: "EnvState \<Rightarrow> int \<times> int \<Rightarrow> EnvState" where
  "updateCurrentPosition state payload = state \<lparr> currentPosition := payload \<rparr>"

definition setBreakoutState :: "EnvState \<Rightarrow> BreakoutState \<Rightarrow> EnvState" where
  "setBreakoutState state payload = state \<lparr> breakoutState := Some payload \<rparr>"

subsection \<open>The WebSocket hook: incoming training messages\<close>

datatype TrajectoryStep =
  GridworldTrajectoryStep (step_no: int) (position: "int \<times> int") (step_action: int)
      (step_reward: real)
  | FrozenLakeTrajectoryStep (step_no: int) (position: "int \<times> int") (step_action: int)
      (step_reward: real) (cell_type: string)
  | BreakoutTrajectoryStep (step_no: int) (paddle_position: int) (ball_position: "int \<times> int")
      (ball_direction: int) (step_action: int) (step_reward: real)

text \<open>\<^verbatim>\<open>TrainingUpdate\<close>, the parsed JSON of one message; the fields carry the prefix
  \<open>msg_\<close> here.\<close>

record TrainingUpdate =
  msg_type :: string
  msg_episode :: "int option"
  msg_total_episodes :: "int option"
  msg_progress :: "real option"
  msg_iteration :: "int option"
  msg_delta :: "real option"
  msg_converged :: "bool option"
  msg_sample_values :: "value_table option"
  msg_value_function :: "value_table option"
  msg_policy :: "policy_table option"
  msg_avg_value :: "real option"
  msg_avg_reward :: "real option"
  msg_episode_reward :: "real option"
  msg_states_evaluated :: "int option"
  msg_trajectory :: "TrajectoryStep list option"
  msg_episode_length :: "int option"
  msg_environment :: "string option"
  msg_episode_rewards :: "real list option"
  msg_n_steps :: "int option"

text \<open>The \<^verbatim>\<open>useState\<close> cells of the hook.\<close>

record HookState =
  isConnected :: bool
  isTraining :: bool
  currentEpisode :: int
  totalEpisodes :: int
  currentIteration :: int
  currentDelta :: real
  avgValue :: real
  avgReward :: real
  episodeRewards :: "real list"
  deltaHistory :: "real list"
  hookAgentPosition :: "(int \<times> int) option"
  currentTrajectory :: "TrajectoryStep list"
  currentEnvironment :: string

text \<open>Everything the message handler can write: the hook's cells and the three store
  slices it dispatches to.\<close>

record ClientState =
  hook :: HookState
  algo :: AlgoState
  sim_progress :: real
  env :: EnvState

definition updatePositionFromStep :: "ClientState \<Rightarrow> TrajectoryStep \<Rightarrow> ClientState" where
  "updatePositionFromStep s step =
     (case step of
        BreakoutTrajectoryStep n paddle ball dir a r \<Rightarrow>
          s \<lparr> env := updateCurrentPosition
                       (setBreakoutState (env s)
                          \<lparr> paddlePosition = paddle, ballPosition = ball, bricks = [], score = 0 \<rparr>)
                       (paddle, snd ball),
              hook := (hook s) \<lparr> hookAgentPosition := Some (paddle, snd ball) \<rparr> \<rparr>
      | _ \<Rightarrow>
          s \<lparr> hook := (hook s) \<lparr> hookAgentPosition := Some (position step) \<rparr>,
              env := updateCurrentPosition (env s) (position step) \<rparr>)"

text \<open>\<^verbatim>\<open>animateTrajectory\<close> shows the last ten steps at most. Its first step runs inside
  the call; the later ones run from timers, after the handler has returned, and do the
  same position update.\<close>

definition animateTrajectory :: "ClientState \<Rightarrow> TrajectoryStep list \<Rightarrow> ClientState" where
  "animateTrajectory s trajectory =
     (if length trajectory = 0 then s
      else let maxStepsToAnimate = min (length trajectory) 10;
               startIdx = length trajectory - maxStepsToAnimate
           in updatePositionFromStep s (trajectory ! startIdx))"

text \<open>The progress shown for a \<^verbatim>\<open>dp_iteration\<close> message:
  \<^verbatim>\<open>data.converged ? 100 : Math.min(95, (1 - Math.min(data.delta || 1, 1)) * 100)\<close>.\<close>

definition dpProgress :: "TrainingUpdate \<Rightarrow> real" where
  "dpProgress data =
     (if msg_converged data = Some True then 100
      else min 95 ((1 - min (falsy_or (msg_delta data) 1) 1) * 100))"

definition onmessage :: "ClientState \<Rightarrow> TrainingUpdate \<Rightarrow> ClientState" where
  "onmessage s data =
    (if msg_type data = ''connection_established'' then s
     else if msg_type data = ''training_started'' then
       s \<lparr> hook := (hook s)
              \<lparr> isTraining := True,
                totalEpisodes := falsy_or (msg_total_episodes data) 0,
                currentEnvironment :=
                  falsy_or_str (msg_environment data) (currentEnvironment (hook s)) \<rparr> \<rparr>
     else if msg_type data = ''dp_started'' then
       s \<lparr> hook := (hook s)
              \<lparr> isTraining := True,
                currentEnvironment :=
                  falsy_or_str (msg_environment data) (currentEnvironment (hook s)) \<rparr> \<rparr>
     else if msg_type data = ''agent_step'' then
       (case msg_trajectory data of
          None \<Rightarrow> s
        | Some trajectory \<Rightarrow>
            if length trajectory > 0
            then animateTrajectory
                   (s \<lparr> hook := (hook s) \<lparr> currentTrajectory := trajectory \<rparr> \<rparr>) trajectory
            else s)
     else if msg_type data = ''training_progress'' then
       s \<lparr> hook := (hook s)
              \<lparr> currentEpisode := falsy_or (msg_episode data) 0,
                totalEpisodes := falsy_or (msg_total_episodes data) 0,
                avgValue := falsy_or (msg_avg_value data) 0,
                avgReward := falsy_or (msg_avg_reward data) 0,
                episodeRewards :=
                  (case msg_episode_rewards data of
                     None \<Rightarrow> episodeRewards (hook s)
                   | Some rs \<Rightarrow> if length rs > 0 then rs else episodeRewards (hook s)) \<rparr>,
            sim_progress := falsy_or (msg_progress data) 0,
            algo := (case msg_sample_values data of
                       None \<Rightarrow> algo s
                     | Some sample \<Rightarrow> setValueFunction (algo s) sample) \<rparr>
     else if msg_type data = ''dp_iteration'' then
       s \<lparr> hook := (hook s)
              \<lparr> currentIteration := falsy_or (msg_iteration data) 0,
                currentDelta := falsy_or (msg_delta data) 0,
                avgValue := falsy_or (msg_avg_value data) 0,
                deltaHistory :=
                  (case msg_delta data of
                     None \<Rightarrow> deltaHistory (hook s)
                   | Some d \<Rightarrow> deltaHistory (hook s) @ [d]) \<rparr>,
            sim_progress := dpProgress data,
            algo := (case msg_sample_values data of
                       None \<Rightarrow> algo s
                     | Some sample \<Rightarrow> setValueFunction (algo s) sample) \<rparr>
     else if msg_type data = ''training_complete'' then
       (let a1 = (case msg_value_function data of
                    None \<Rightarrow> algo s | Some vf \<Rightarrow> setValueFunction (algo s) vf);
            a2 = (case msg_policy data of None \<Rightarrow> a1 | Some pol \<Rightarrow> setPolicy a1 pol)
        in s \<lparr> hook := (hook s)
                 \<lparr> isTraining := False,
                   episodeRewards :=
                     (case msg_episode_rewards data of
                        None \<Rightarrow> episodeRewards (hook s) | Some rs \<Rightarrow> rs) \<rparr>,
               sim_progress := 100,
               algo := setTrained a2 True \<rparr>)
     else if msg_type data = ''training_stopped'' then
       s \<lparr> hook := (hook s) \<lparr> isTraining := False \<rparr> \<rparr>
     else if msg_type data = ''error'' then
       s \<lparr> hook := (hook s) \<lparr> isTraining := False \<rparr> \<rparr>
     else s)"

text \<open>The progress formula as the interface description words it.\<close>

definition dpProgress_described :: "bool \<Rightarrow> real \<Rightarrow> real" where
  "dpProgress_described converged d =
     (if converged then 100 else min 95 ((1 - min d 1) * 100))"

text \<open>A message of a given type with every optional field absent.\<close>

definition bare_message :: "string \<Rightarrow> TrainingUpdate" where
  "bare_message t =
     \<lparr> msg_type = t, msg_episode = None, msg_total_episodes = None, msg_progress = None,
       msg_iteration = None, msg_delta = None, msg_converged = None,
       msg_sample_values = None, msg_value_function = None, msg_policy = None,
       msg_avg_value = None, msg_avg_reward = None, msg_episode_reward = None,
       msg_states_evaluated = None, msg_trajectory = None, msg_episode_length = None,
       msg_environment = None, msg_episode_rewards = None, msg_n_steps = None \<rparr>"

definition hook_initialState :: HookState where
  "hook_initialState =
     \<lparr> isConnected = False, isTraining = False, currentEpisode = 0, totalEpisodes = 0,
       currentIteration = 0, currentDelta = 0, avgValue = 0, avgReward = 0,
       episodeRewards = [], deltaHistory = [], hookAgentPosition = None,
       currentTrajectory = [], currentEnvironment = ''gridworld'' \<rparr>"



definition client_initialState :: ClientState where
  "client_initialState =
     \<lparr> hook = hook_initialState, algo = algo_initialState, sim_progress = 0,
       env = env_initialState \<rparr>"

section \<open>The backend engines and the training session, from their specification\<close>

text \<open>
  The Python backend (the environments, the algorithm engines and the WebSocket consumer
  that runs a training session) is not among the sources; the front end above is its
  only caller. The definitions of this section follow the specification of the backend
  sentence by sentence.
\<close>

subsection \<open>Value Iteration with a sweep cap\<close>

text \<open>Modelled from the spec: the environment's explicit model for the DP engines (the
  backend's environment classes are missing). \<open>enumerate_states\<close> is the finite list of
  states, \<open>transition_model s a\<close> the one-step distribution as a list of (probability,
  next state, reward, terminated).\<close>

record ('s, 'a) dp_model =
  enumerate_states :: "'s list"
  dp_actions :: "'a list"
  transition_model :: "'s \<Rightarrow> 'a \<Rightarrow> (real \<times> 's \<times> real \<times> bool) list"
  is_terminal :: "'s \<Rightarrow> bool"

text \<open>The largest element of a list of numbers (0 for the empty list).\<close>

fun max_over :: "real list \<Rightarrow> real" where
  "max_over [] = 0"
| "max_over (x # xs) = fold max xs x"

text \<open>Modelled from the spec: the Bellman backup of the missing Value Iteration engine,
  \<open>\<Sum> P(sp|s,a) [R(s,a,sp) + \<gamma> V(sp) (1 - terminated)]\<close> for one action.\<close>

definition backup ::
  "('s, 'a) dp_model \<Rightarrow> real \<Rightarrow> ('s \<Rightarrow> real) \<Rightarrow> 's \<Rightarrow> 'a \<Rightarrow> real" where
  "backup m \<gamma> V s a =
     sum_list (map (\<lambda>(p, sp, r, terminated).
                      p * (r + \<gamma> * V sp * (if terminated then 0 else 1)))
                   (transition_model m s a))"

text \<open>Modelled from the spec: one increment of the missing Value Iteration engine, a
  full synchronous sweep: every enumerated state gets the maximum of the backups taken
  on the old values; terminal states are pinned at 0.\<close>

definition sweep :: "('s, 'a) dp_model \<Rightarrow> real \<Rightarrow> ('s \<Rightarrow> real) \<Rightarrow> 's \<Rightarrow> real" where
  "sweep m \<gamma> V s =
     (if s \<in> set (enumerate_states m)
      then (if is_terminal m s then 0 else max_over (map (backup m \<gamma> V s) (dp_actions m)))
      else V s)"

text \<open>Modelled from the spec: \<open>\<delta> = max\<^sub>s |V'(s) - V(s)|\<close> over the sweep of the missing
  engine.\<close>

definition sweep_delta ::
  "('s, 'a) dp_model \<Rightarrow> ('s \<Rightarrow> real) \<Rightarrow> ('s \<Rightarrow> real) \<Rightarrow> real" where
  "sweep_delta m V V' = max_over (map (\<lambda>s. \<bar>V' s - V s\<bar>) (enumerate_states m))"

text \<open>Modelled from the spec: the two terminal outcomes of the missing engine. Converged
  carries the value function, the last \<open>\<delta>\<close> and the number of sweeps made; a run that
  exceeds the safety bound is reported as failed, "did not converge", with the last
  \<open>\<delta>\<close>.\<close>

datatype 's vi_outcome =
  Converged "('s \<times> real) list" real nat
  | Did_not_converge real

definition value_table_of :: "('s, 'a) dp_model \<Rightarrow> ('s \<Rightarrow> real) \<Rightarrow> ('s \<times> real) list" where
  "value_table_of m V = map (\<lambda>s. (s, V s)) (enumerate_states m)"

text \<open>Modelled from the spec: the sweep loop of the missing engine: sweep, compare
  \<open>\<delta>\<close> with \<open>\<theta>\<close>, stop as converged when \<open>\<delta> < \<theta>\<close>, and give up when the budget of sweeps
  (the safety bound) is used up. \<open>k\<close> counts the sweeps made so far.\<close>

fun vi_loop ::
  "('s, 'a) dp_model \<Rightarrow> real \<Rightarrow> real \<Rightarrow> nat \<Rightarrow> nat \<Rightarrow> ('s \<Rightarrow> real) \<Rightarrow> real \<Rightarrow> 's vi_outcome"
  where
  "vi_loop m \<gamma> \<theta> 0 k V \<delta> = Did_not_converge \<delta>"
| "vi_loop m \<gamma> \<theta> (Suc budget) k V \<delta> =
     (let V' = sweep m \<gamma> V; \<delta>' = sweep_delta m V V'
      in if \<delta>' < \<theta> then Converged (value_table_of m V') \<delta>' (Suc k)
         else vi_loop m \<gamma> \<theta> budget (Suc k) V' \<delta>')"

text \<open>Modelled from the spec: a run of the missing engine, from the all-zero value
  function, with the safety bound \<open>cap\<close> on the number of sweeps.\<close>

definition run_value_iteration ::
  "('s, 'a) dp_model \<Rightarrow> real \<Rightarrow> real \<Rightarrow> nat \<Rightarrow> 's vi_outcome" where
  "run_value_iteration m \<gamma> \<theta> cap = vi_loop m \<gamma> \<theta> cap 0 (\<lambda>s. 0) 0"

text \<open>The value function after \<open>k\<close> sweeps and the \<open>\<delta>\<close> of sweep number \<open>k + 1\<close>, to
  state what a run returns.\<close>

fun vi_values :: "('s, 'a) dp_model \<Rightarrow> real \<Rightarrow> nat \<Rightarrow> 's \<Rightarrow> real" where
  "vi_values m \<gamma> 0 = (\<lambda>s. 0)"
| "vi_values m \<gamma> (Suc k) = sweep m \<gamma> (vi_values m \<gamma> k)"

definition vi_delta :: "('s, 'a) dp_model \<Rightarrow> real \<Rightarrow> nat \<Rightarrow> real" where
  "vi_delta m \<gamma> k = sweep_delta m (vi_values m \<gamma> k) (vi_values m \<gamma> (Suc k))"

text \<open>Two small models: a single state that loops on itself at a cost of 1, and a
  corridor of three cells whose right end is the goal (step reward -1, goal reward 10;
  action 0 moves left and is a no-op at the wall, action 1 moves right).\<close>

definition treadmill :: "(nat, nat) dp_model" where
  "treadmill =
     \<lparr> enumerate_states = [0], dp_actions = [0],
       transition_model = (\<lambda>s a. [(1, 0, -1, False)]), is_terminal = (\<lambda>s. False) \<rparr>"

definition corridor :: "(nat, nat) dp_model" where
  "corridor =
     \<lparr> enumerate_states = [0, 1, 2], dp_actions = [0, 1],
       transition_model =
         (\<lambda>s a. if a = 0 then [(1, s - 1, -1, False)]
                 else if s = 1 then [(1, 2, 10, True)] else [(1, Suc s, -1, False)]),
       is_terminal = (\<lambda>s. s = 2) \<rparr>"

subsection \<open>SARSA\<close>

text \<open>Modelled from the spec: the environment contract as the TD engine uses it (the
  environment classes are missing): \<open>reset\<close> gives the start state and \<open>env_step s a c\<close>
  the next state, the reward and whether the episode terminated; \<open>c\<close> is the outcome of
  the environment's own chance (the slip of the ice variant). Actions are the integers
  below \<open>n_actions\<close>.\<close>

record 's td_environment =
  reset :: 's
  n_actions :: nat
  env_step :: "'s \<Rightarrow> nat \<Rightarrow> nat \<Rightarrow> 's \<times> real \<times> bool"

text \<open>The random draws of a run, by their position: the number compared with \<open>\<epsilon>\<close>, the
  action taken when exploring, and the environment's chance.\<close>

record randomness =
  uniform :: "nat \<Rightarrow> real"
  choice :: "nat \<Rightarrow> nat"
  chance :: "nat \<Rightarrow> nat"

type_synonym 's qtable = "'s \<times> nat \<Rightarrow> real"

text \<open>Modelled from the spec: the greedy action of the missing value store, an argmax
  whose ties go to the lowest action index.\<close>

fun argmax_from :: "(nat \<Rightarrow> real) \<Rightarrow> nat \<Rightarrow> nat \<Rightarrow> nat \<Rightarrow> nat" where
  "argmax_from f best a 0 = best"
| "argmax_from f best a (Suc n) = argmax_from f (if f a > f best then a else best) (Suc a) n"

definition greedy_action :: "nat \<Rightarrow> 's qtable \<Rightarrow> 's \<Rightarrow> nat" where
  "greedy_action n Q s = argmax_from (\<lambda>a. Q (s, a)) 0 1 (n - 1)"

text \<open>Modelled from the spec: \<open>\<epsilon>\<close>-greedy selection from Q of the missing TD engine,
  with draw number \<open>i\<close>.\<close>

definition epsilon_greedy ::
  "randomness \<Rightarrow> nat \<Rightarrow> real \<Rightarrow> nat \<Rightarrow> 's qtable \<Rightarrow> 's \<Rightarrow> nat" where
  "epsilon_greedy rnd i \<epsilon> n Q s =
     (if uniform rnd i < \<epsilon> then choice rnd i mod n else greedy_action n Q s)"

text \<open>One recorded transition: the state, the action executed in it, the reward, the
  next state, the done flag, and the next action \<open>A'\<close> selected for the update.\<close>

record 's sarsa_transition =
  tr_state :: 's
  tr_action :: nat
  tr_reward :: real
  tr_next_state :: 's
  tr_done :: bool
  tr_next_action :: nat

text \<open>Modelled from the spec: the SARSA update of the missing TD engine,
  \<open>Q(S,A) \<leftarrow> Q(S,A) + \<alpha> [R + \<gamma> Q(S',A') (1 - done) - Q(S,A)]\<close>.\<close>

definition td_update :: "real \<Rightarrow> real \<Rightarrow> 's qtable \<Rightarrow> 's sarsa_transition \<Rightarrow> 's qtable" where
  "td_update \<alpha> \<gamma> Q tr =
     Q ((tr_state tr, tr_action tr) :=
          Q (tr_state tr, tr_action tr)
          + \<alpha> * (tr_reward tr
                 + \<gamma> * Q (tr_next_state tr, tr_next_action tr) * (if tr_done tr then 0 else 1)
                 - Q (tr_state tr, tr_action tr)))"

text \<open>Modelled from the spec: the step loop of one SARSA episode of the missing TD
  engine. Each turn executes the action \<open>a\<close> it was handed, selects \<open>A'\<close> by \<open>\<epsilon>\<close>-greedy
  from Q at the next state before the update, updates, and hands \<open>A'\<close> to the next turn.
  The episode ends when the environment terminates or the step cap is used up.\<close>

fun sarsa_steps ::
  "'s td_environment \<Rightarrow> randomness \<Rightarrow> real \<Rightarrow> real \<Rightarrow> real \<Rightarrow> nat \<Rightarrow> nat \<Rightarrow> 's qtable \<Rightarrow> 's
     \<Rightarrow> nat \<Rightarrow> 's qtable \<times> 's sarsa_transition list" where
  "sarsa_steps E rnd \<alpha> \<gamma> \<epsilon> 0 i Q s a = (Q, [])"
| "sarsa_steps E rnd \<alpha> \<gamma> \<epsilon> (Suc budget) i Q s a =
     (case env_step E s a (chance rnd i) of
        (s', r, done) \<Rightarrow>
          let a' = epsilon_greedy rnd (Suc i) \<epsilon> (n_actions E) Q s';
              tr = \<lparr> tr_state = s, tr_action = a, tr_reward = r, tr_next_state = s',
                     tr_done = done, tr_next_action = a' \<rparr>;
              Q' = td_update \<alpha> \<gamma> Q tr
          in if done then (Q', [tr])
             else (case sarsa_steps E rnd \<alpha> \<gamma> \<epsilon> budget (Suc i) Q' s' a' of
                     (Q'', rest) \<Rightarrow> (Q'', tr # rest)))"

text \<open>Modelled from the spec: one SARSA episode of the missing TD engine, from the
  reset state, with the first action selected by \<open>\<epsilon>\<close>-greedy; it returns the updated
  Q-table and the recorded transitions.\<close>

definition sarsa_episode ::
  "'s td_environment \<Rightarrow> randomness \<Rightarrow> real \<Rightarrow> real \<Rightarrow> real \<Rightarrow> nat \<Rightarrow> nat \<Rightarrow> 's qtable
     \<Rightarrow> 's qtable \<times> 's sarsa_transition list" where
  "sarsa_episode E rnd \<alpha> \<gamma> \<epsilon> max_steps i Q =
     (let s = reset E; a = epsilon_greedy rnd i \<epsilon> (n_actions E) Q s
      in sarsa_steps E rnd \<alpha> \<gamma> \<epsilon> max_steps i Q s a)"

text \<open>A recorded run is chained when every transition starts in the state and executes
  the action that the one before it ended with.\<close>

fun on_policy_from :: "'s \<Rightarrow> nat \<Rightarrow> 's sarsa_transition list \<Rightarrow> bool" where
  "on_policy_from s a [] = True"
| "on_policy_from s a (tr # rest) =
     (tr_state tr = s \<and> tr_action tr = a \<and>
      on_policy_from (tr_next_state tr) (tr_next_action tr) rest)"

text \<open>A recorded run is consistent when every transition is what the environment
  answered to the recorded action, its \<open>A'\<close> is the \<open>\<epsilon>\<close>-greedy selection from the Q-table
  as it was before the transition's update, and the rest of the run is consistent with
  the updated table.\<close>

fun sarsa_consistent ::
  "'s td_environment \<Rightarrow> randomness \<Rightarrow> real \<Rightarrow> real \<Rightarrow> real \<Rightarrow> nat \<Rightarrow> 's qtable
     \<Rightarrow> 's sarsa_transition list \<Rightarrow> bool" where
  "sarsa_consistent E rnd \<alpha> \<gamma> \<epsilon> i Q [] = True"
| "sarsa_consistent E rnd \<alpha> \<gamma> \<epsilon> i Q (tr # rest) =
     (env_step E (tr_state tr) (tr_action tr) (chance rnd i)
        = (tr_next_state tr, tr_reward tr, tr_done tr) \<and>
      tr_next_action tr = epsilon_greedy rnd (Suc i) \<epsilon> (n_actions E) Q (tr_next_state tr) \<and>
      sarsa_consistent E rnd \<alpha> \<gamma> \<epsilon> (Suc i) (td_update \<alpha> \<gamma> Q tr) rest)"

text \<open>A walk on the cells 0, 1, 2 with the goal at 2 (action 1 steps right, action 0
  steps left and stays at the wall), and draws that explore at every selection but the
  third.\<close>

definition walk :: "nat td_environment" where
  "walk =
     \<lparr> reset = 0, n_actions = 2,
       env_step = (\<lambda>s a c. if a = 1 then (Suc s, if Suc s = 2 then 10 else -1, Suc s = 2)
                            else (s - 1, -1, False)) \<rparr>"

definition dice :: randomness where
  "dice =
     \<lparr> uniform = (\<lambda>i. if i = 2 then 1 else 0),
       choice = (\<lambda>i. if i = 1 \<or> i = 3 then 1 else 0), chance = (\<lambda>i. 0) \<rparr>"

subsection \<open>The training session\<close>

text \<open>Modelled from the spec: the lifecycle of a training session (the WebSocket
  consumer that runs sessions is missing): idle, running, and the three terminal
  states.\<close>

datatype lifecycle = Idle | Running | Completed | Cancelled | Failed

text \<open>Modelled from the spec: the events a session of the missing consumer emits:
  \<open>training_started{total_units}\<close>, \<open>progress{unit_index, delta_or_reward, sample_values}\<close>,
  \<open>completed{value_function, policy, history}\<close>,
  \<open>cancelled{partial_value_function, history}\<close> and \<open>failed{reason}\<close>.\<close>

datatype ('v, 'p) session_event =
  Training_started nat
  | Progress nat real 'v
  | Completed_event 'v 'p "real list"
  | Cancelled_event 'v "real list"
  | Failed_event string

text \<open>Modelled from the spec: what the session needs of an engine of the missing
  backend: run one unit and return the new engine state or an unrecoverable error, say
  whether the run is finished, and read off the metric of the last unit (delta or
  reward), a small sample of the values, the full value function and the policy.\<close>

record ('e, 'v, 'p) engine =
  run_unit :: "'e \<Rightarrow> string + 'e"
  finished :: "'e \<Rightarrow> bool"
  metric :: "'e \<Rightarrow> real"
  sample_values :: "'e \<Rightarrow> 'v"
  value_function :: "'e \<Rightarrow> 'v"
  derived_policy :: "'e \<Rightarrow> 'p"

text \<open>Where the driver loop of a running session stands: about to run an increment,
  or at the boundary after an increment and its progress event, about to check the
  cancellation flag.\<close>

datatype driver_phase = Run_increment | Check_cancellation

text \<open>Modelled from the spec: the state of a training session of the missing consumer:
  lifecycle state, cancellation flag, the engine state it owns, the accumulated history
  and the events emitted so far, oldest first.\<close>

record ('e, 'v, 'p) training_session =
  lifecycle_state :: lifecycle
  cancellation_flag :: bool
  phase :: driver_phase
  unit_index :: nat
  engine_state :: 'e
  history :: "real list"
  emitted :: "('v, 'p) session_event list"

text \<open>Modelled from the spec: \<open>start\<close> of the missing session: invalid input is rejected
  without creating a running session; otherwise the session is running and has
  announced its total number of units.\<close>

definition start :: "bool \<Rightarrow> nat \<Rightarrow> 'e \<Rightarrow> ('e, 'v, 'p) training_session option" where
  "start valid total_units e0 =
     (if \<not> valid then None
      else Some \<lparr> lifecycle_state = Running, cancellation_flag = False, phase = Run_increment,
                  unit_index = 0, engine_state = e0, history = [],
                  emitted = [Training_started total_units] \<rparr>)"

text \<open>Modelled from the spec: \<open>stop()\<close> of the missing session sets the cancellation
  flag; terminal states do not change any more.\<close>

definition stop :: "('e, 'v, 'p) training_session \<Rightarrow> ('e, 'v, 'p) training_session" where
  "stop s = (if lifecycle_state s = Running then s \<lparr> cancellation_flag := True \<rparr> else s)"

text \<open>Modelled from the spec: one turn of the driver loop of the missing session. An
  increment is run as a whole and followed by its progress event (or by \<open>failed\<close> when
  the engine reports an unrecoverable error); at the boundary the progress event has
  been emitted first, then the flag is checked: a set flag ends the session as
  cancelled with the partial results, otherwise a finished engine ends it as completed
  with the full value function and the policy, otherwise the next increment is due.\<close>

definition drive ::
  "('e, 'v, 'p) engine \<Rightarrow> ('e, 'v, 'p) training_session \<Rightarrow> ('e, 'v, 'p) training_session"
  where
  "drive E s =
     (if lifecycle_state s \<noteq> Running then s
      else case phase s of
        Run_increment \<Rightarrow>
          (case run_unit E (engine_state s) of
             Inl reason \<Rightarrow>
               s \<lparr> lifecycle_state := Failed, emitted := emitted s @ [Failed_event reason] \<rparr>
           | Inr e' \<Rightarrow>
               s \<lparr> engine_state := e', unit_index := Suc (unit_index s),
                   history := history s @ [metric E e'],
                   emitted := emitted s @ [Progress (Suc (unit_index s)) (metric E e')
                                             (sample_values E e')],
                   phase := Check_cancellation \<rparr>)
      | Check_cancellation \<Rightarrow>
          if cancellation_flag s then
            s \<lparr> lifecycle_state := Cancelled,
                emitted := emitted s @ [Cancelled_event (value_function E (engine_state s))
                                          (history s)] \<rparr>
          else if finished E (engine_state s) then
            s \<lparr> lifecycle_state := Completed,
                emitted := emitted s @ [Completed_event (value_function E (engine_state s))
                                          (derived_policy E (engine_state s)) (history s)] \<rparr>
          else s \<lparr> phase := Run_increment \<rparr>)"

text \<open>What can happen to a session: a stop request arrives, or the driver takes its
  next turn. A stop request that arrives while an increment runs is one that arrives
  before that turn, since the increment does not look at the flag.\<close>

datatype session_input = Stop_training | Drive

fun apply_input ::
  "('e, 'v, 'p) engine \<Rightarrow> ('e, 'v, 'p) training_session \<Rightarrow> session_input
     \<Rightarrow> ('e, 'v, 'p) training_session" where
  "apply_input E s Stop_training = stop s"
| "apply_input E s Drive = drive E s"

definition run_inputs ::
  "('e, 'v, 'p) engine \<Rightarrow> session_input list \<Rightarrow> ('e, 'v, 'p) training_session
     \<Rightarrow> ('e, 'v, 'p) training_session" where
  "run_inputs E inputs s = foldl (apply_input E) s inputs"

fun is_progress :: "('v, 'p) session_event \<Rightarrow> bool" where
  "is_progress (Progress _ _ _) = True"
| "is_progress _ = False"

fun is_completed :: "('v, 'p) session_event \<Rightarrow> bool" where
  "is_completed (Completed_event _ _ _) = True"
| "is_completed _ = False"

fun is_cancelled :: "('v, 'p) session_event \<Rightarrow> bool" where
  "is_cancelled (Cancelled_event _ _) = True"
| "is_cancelled _ = False"

text \<open>The events a session has emitted since an earlier state of it.\<close>

definition events_since ::
  "('e, 'v, 'p) training_session \<Rightarrow> ('e, 'v, 'p) training_session
     \<Rightarrow> ('v, 'p) session_event list" where
  "events_since s t = drop (length (emitted s)) (emitted t)"

text \<open>A session whose flag is set, or that has ended, no longer reacts to stop requests.\<close>

definition settled :: "('e, 'v, 'p) training_session \<Rightarrow> bool" where
  "settled s = (cancellation_flag s \<or> lifecycle_state s \<noteq> Running)"

text \<open>The events still to come once the flag of a running session is set: at a
  boundary the cancelled event; before an increment that increment's progress event and
  then the cancelled event, or the failed event if the increment fails.\<close>

definition wind_down ::
  "('e, 'v, 'p) engine \<Rightarrow> ('e, 'v, 'p) training_session \<Rightarrow> ('v, 'p) session_event list" where
  "wind_down E s =
     (case phase s of
        Check_cancellation \<Rightarrow>
          [Cancelled_event (value_function E (engine_state s)) (history s)]
      | Run_increment \<Rightarrow>
          (case run_unit E (engine_state s) of
             Inl reason \<Rightarrow> [Failed_event reason]
           | Inr e' \<Rightarrow>
               [Progress (Suc (unit_index s)) (metric E e') (sample_values E e'),
                Cancelled_event (value_function E e') (history s @ [metric E e'])]))"

text \<open>An engine that counts its units and is finished after three, and a session on it
  that has emitted its first progress event and passed the check after it.\<close>

definition counting_engine :: "(nat, nat, nat) engine" where
  "counting_engine =
     \<lparr> run_unit = (\<lambda>n. Inr (Suc n)), finished = (\<lambda>n. 3 \<le> n), metric = real,
       sample_values = (\<lambda>n. n), value_function = (\<lambda>n. n), derived_policy = (\<lambda>n. n) \<rparr>"

text \<open>An engine that does its first unit and fails on the second.\<close>

definition faltering_engine :: "(nat, nat, nat) engine" where
  "faltering_engine =
     \<lparr> run_unit = (\<lambda>n. if n = 0 then Inr 1 else Inl ''did not converge''),
       finished = (\<lambda>n. 3 \<le> n), metric = real,
       sample_values = (\<lambda>n. n), value_function = (\<lambda>n. n), derived_policy = (\<lambda>n. n) \<rparr>"

definition session_after_first_progress :: "(nat, nat, nat) training_session" where
  "session_after_first_progress =
     \<lparr> lifecycle_state = Running, cancellation_flag = False, phase = Run_increment,
       unit_index = 1, engine_state = 1, history = [1],
       emitted = [Training_started 3, Progress 1 1 1] \<rparr>"

section \<open>Properties\<close>

subsection \<open>Grid resizing keeps the positions on the grid\<close>

lemma setGridSize_config:
  "config (setGridSize state n) =
     (config state) \<lparr> gridSize := n,
        goalPosition := (clamp_coord n (fst (goalPosition (config state))),
                         clamp_coord n (snd (goalPosition (config state)))),
        agentPosition := (clamp_coord n (fst (agentPosition (config state))),
                          clamp_coord n (snd (agentPosition (config state)))) \<rparr>"
  by (simp add: setGridSize_def clamp_coord_def Let_def)

lemma clamp_coord_range: "0 \<le> c \<Longrightarrow> 1 \<le> n \<Longrightarrow> 0 \<le> clamp_coord n c \<and> clamp_coord n c \<le> n - 1"
  by (simp add: clamp_coord_def)

text \<open>
  C9. For every environment state whose agent and goal coordinates are nonnegative
  (integers, as grid coordinates are) and every new grid size \<open>n \<ge> 1\<close>, after
  \<^verbatim>\<open>setGridSize(n)\<close> each of the four coordinates
  lies in \<open>[0, n - 1]\<close>; a coordinate that was \<open>\<ge> n\<close> has become \<open>n - 1\<close> and every
  other coordinate is unchanged.
\<close>

theorem setGridSize_clamps:
  assumes "0 \<le> fst (agentPosition (config state))" "0 \<le> snd (agentPosition (config state))"
    and "0 \<le> fst (goalPosition (config state))" "0 \<le> snd (goalPosition (config state))"
    and "1 \<le> n"
  shows "(\<forall>p \<in> {agentPosition, goalPosition}. \<forall>c \<in> {fst, snd}.
            0 \<le> c (p (config (setGridSize state n))) \<and>
            c (p (config (setGridSize state n))) \<le> n - 1 \<and>
            c (p (config (setGridSize state n))) =
              (if c (p (config state)) \<ge> n then n - 1 else c (p (config state))))"
  using assms by (simp add: setGridSize_config clamp_coord_def)

theorem setGridSize_clamps_witness:
  "fst (agentPosition (config (setGridSize
       (env_initialState \<lparr> config := (config env_initialState) \<lparr> agentPosition := (1, 3) \<rparr> \<rparr>) 3))) = 1
   \<and> snd (agentPosition (config (setGridSize
       (env_initialState \<lparr> config := (config env_initialState) \<lparr> agentPosition := (1, 3) \<rparr> \<rparr>) 3))) = 2
   \<and> goalPosition (config (setGridSize
       (env_initialState \<lparr> config := (config env_initialState) \<lparr> agentPosition := (1, 3) \<rparr> \<rparr>) 3)) = (2, 2)"
  using setGridSize_clamps
    [of "env_initialState \<lparr> config := (config env_initialState) \<lparr> agentPosition := (1, 3) \<rparr> \<rparr>" 3]
  by (simp add: env_initialState_def prod_eq_iff)

subsection \<open>The three action tables agree\<close>

text \<open>
  C7. The keys of the action tables are exactly the four integers 0, 1, 2, 3, and on each
  of them \<^verbatim>\<open>formatActionName\<close> returns the entry of \<^verbatim>\<open>ACTION_NAMES\<close> and \<^verbatim>\<open>getArrow\<close>
  the entry of \<^verbatim>\<open>ACTION_SYMBOLS\<close>: 0 is Up, 1 is Down, 2 is Left, 3 is Right, each with
  its arrow.
\<close>

theorem action_tables_agree:
  "dom ACTION_NAMES = {0, 1, 2, 3} \<and> dom ACTION_SYMBOLS = {0, 1, 2, 3} \<and>
   (\<forall>a \<in> {0, 1, 2, 3}.
        ACTION_NAMES a = Some (formatActionName a) \<and>
        ACTION_SYMBOLS a = Some (getArrow (Some a))) \<and>
   map formatActionName [0, 1, 2, 3] = [''Up'', ''Down'', ''Left'', ''Right''] \<and>
   map (\<lambda>a. getArrow (Some a)) [0, 1, 2, 3] = [arrow_up, arrow_down, arrow_left, arrow_right]"
  by (auto simp: ACTION_NAMES_def ACTION_SYMBOLS_def formatActionName_def getArrow_def
      falsy_or_str_def arrow_up_def arrow_down_def arrow_left_def arrow_right_def
      split: if_splits)

theorem action_tables_agree_witness:
  "ACTION_NAMES 2 = Some (formatActionName 2) \<and> formatActionName 2 = ''Left'' \<and>
   ACTION_SYMBOLS 2 = Some (getArrow (Some 2)) \<and> getArrow (Some 2) = arrow_left"
  using action_tables_agree by simp

subsection \<open>Defaults of the REST request bodies\<close>

text \<open>
  C8. Whatever optional parameter a call of \<^verbatim>\<open>runAlgorithm\<close> or \<^verbatim>\<open>simulatePolicy\<close>
  leaves out is filled in the request body with gamma 0.99, theta 0.0001, num_episodes
  1000, alpha 0.1, epsilon 0.1 (the values of the parameter slice's initial state),
  grid_size 4 and max_steps 100; the goal position of \<^verbatim>\<open>runAlgorithm\<close> defaults to the far
  corner \<open>(gridSize - 1, gridSize - 1)\<close> when a nonzero grid size is supplied and to
  \<open>(3, 3)\<close> otherwise. The last two conjuncts are the bodies of the calls with every
  optional parameter omitted.
\<close>

theorem request_defaults:
  "rb_grid_size (runAlgorithm_body p) = nullish (ra_gridSize p) 4 \<and>
   rb_gamma (runAlgorithm_body p) = nullish (ra_gamma p) (gamma param_initialState) \<and>
   rb_theta (runAlgorithm_body p) = nullish (ra_theta p) (theta param_initialState) \<and>
   rb_num_episodes (runAlgorithm_body p) =
     nullish (ra_numEpisodes p) (numEpisodes param_initialState) \<and>
   rb_alpha (runAlgorithm_body p) = nullish (ra_alpha p) (alpha param_initialState) \<and>
   rb_epsilon (runAlgorithm_body p) = nullish (ra_epsilon p) (epsilon param_initialState) \<and>
   rb_goal_position (runAlgorithm_body p) =
     nullish (ra_goalPosition p) (default_goal (ra_gridSize p)) \<and>
   sb_max_steps (simulatePolicy_body q) = nullish (sp_maxSteps q) 100 \<and>
   sb_grid_size (simulatePolicy_body q) = nullish (sp_gridSize q) 4 \<and>
   sb_gamma (simulatePolicy_body q) = nullish (sp_gamma q) (gamma param_initialState) \<and>
   param_initialState =
     \<lparr> gamma = 0.99, theta = 0.0001, numEpisodes = 1000, alpha = 0.1, epsilon = 0.1 \<rparr> \<and>
   runAlgorithm_body (runAlgorithm_omitted a) =
     \<lparr> rb_algorithm = algorithm_literal a, rb_grid_size = 4, rb_agent_position = (0, 0),
       rb_goal_position = (3, 3), rb_gamma = 0.99, rb_theta = 0.0001, rb_num_episodes = 1000,
       rb_alpha = 0.1, rb_epsilon = 0.1 \<rparr> \<and>
   simulatePolicy_body (simulatePolicy_omitted g) =
     \<lparr> sb_max_steps = 100, sb_agent_position = None, sb_goal_position = g, sb_grid_size = 4,
       sb_gamma = 0.99, sb_environment = ''gridworld'', sb_policy = None, sb_is_slippery = None,
       sb_num_brick_rows = None \<rparr>"
  by (auto simp: runAlgorithm_body_def simulatePolicy_body_def param_initialState_def
      runAlgorithm_omitted_def simulatePolicy_omitted_def nullish_def default_goal_def
      far_coordinate_def split: option.splits)

subsection \<open>Identifiers sent to the backend\<close>

lemma mapAlgorithmName_stable: "mapAlgorithmName a \<in> set spec_algorithm_ids"
  by (cases a) (simp_all add: mapAlgorithmName_def falsy_or_str_def spec_algorithm_ids_def)

lemma environment_literal_stable: "environment_literal e \<in> set spec_environment_ids"
  by (cases e) (simp_all add: spec_environment_ids_def)

lemma start_training_identifiers:
  "st_algorithm (start_training_message cfg) \<in> set spec_algorithm_ids \<and>
   st_environment (start_training_message cfg) \<in> set spec_environment_ids"
  by (simp add: start_training_message_def mapAlgorithmName_stable environment_literal_stable)

lemma runAlgorithm_identifier_stable_iff:
  "rb_algorithm (runAlgorithm_body p) \<in> set spec_algorithm_ids
     \<longleftrightarrow> ra_algorithm p \<notin> {mc_first_visit, mc_every_visit, mc_control}"
  by (cases "ra_algorithm p") (simp_all add: runAlgorithm_body_def spec_algorithm_ids_def)

text \<open>
  C1. The claim wants every algorithm identifier that reaches the backend, over the
  socket and over REST alike, to be one of the eight stable identifiers. The socket path
  maps the name first and always sends a stable identifier (lemma
  \<open>start_training_identifiers\<close>); \<^verbatim>\<open>runAlgorithm\<close> sends \<^verbatim>\<open>params.algorithm\<close> as it is, so
  for the selectable algorithm \<^verbatim>\<open>mc_first_visit\<close> the REST body carries
  \<^verbatim>\<open>mc_first_visit\<close>, which is none of the eight, where the socket sends
  \<^verbatim>\<open>monte_carlo_first_visit\<close>.
\<close>

theorem runAlgorithm_sends_unmapped_identifier:
  "rb_algorithm (runAlgorithm_body (runAlgorithm_omitted mc_first_visit)) = ''mc_first_visit'' \<and>
   ''mc_first_visit'' \<notin> set spec_algorithm_ids \<and>
   st_algorithm (start_training_message (cfg \<lparr> cfg_algorithm := mc_first_visit \<rparr>))
     = ''monte_carlo_first_visit''"
  by (simp add: runAlgorithm_body_def runAlgorithm_omitted_def spec_algorithm_ids_def
      start_training_message_def mapAlgorithmName_def falsy_or_str_def)

subsection \<open>Progress of a dynamic-programming run\<close>

lemma dpProgress_range:
  "msg_converged data \<noteq> Some True \<Longrightarrow> 0 \<le> dpProgress data \<and> dpProgress data \<le> 95"
  by (simp add: dpProgress_def)

lemma dpProgress_full_iff: "dpProgress data = 100 \<longleftrightarrow> msg_converged data = Some True"
  by (auto simp: dpProgress_def min_def split: if_splits)

lemma dpProgress_nonzero_delta:
  "msg_delta data = Some d \<Longrightarrow> d \<noteq> 0 \<Longrightarrow>
     dpProgress data = dpProgress_described (msg_converged data = Some True) d"
  by (simp add: dpProgress_def dpProgress_described_def falsy_or_def)

lemma onmessage_dp_iteration_progress:
  "msg_type data = ''dp_iteration'' \<Longrightarrow> sim_progress (onmessage s data) = dpProgress data"
  by (simp add: onmessage_def)

text \<open>
  C10. The claim gives the progress of an unconverged \<^verbatim>\<open>dp_iteration\<close> message as
  \<open>min(95, (1 - min(delta, 1)) * 100)\<close>. The handler computes it from \<^verbatim>\<open>data.delta || 1\<close>,
  and \<^verbatim>\<open>0 || 1\<close> is \<^verbatim>\<open>1\<close>: a message with \<open>delta = 0\<close> that is not converged stores the
  progress 0, where the formula gives 95. (For every nonzero delta the handler agrees
  with the formula, the value lies in \<open>[0, 95]\<close> whenever the message is not converged,
  and it is 100 exactly when it is: lemmas \<open>dpProgress_nonzero_delta\<close>,
  \<open>dpProgress_range\<close> and \<open>dpProgress_full_iff\<close>.)
\<close>

theorem dpProgress_zero_delta:
  "sim_progress (onmessage s ((bare_message ''dp_iteration'')
       \<lparr> msg_delta := Some 0, msg_converged := Some False \<rparr>)) = 0 \<and>
   dpProgress_described False 0 = 95"
  by (simp add: onmessage_def dpProgress_def dpProgress_described_def falsy_or_def
      bare_message_def)

subsection \<open>What a progress message may write\<close>



subsection \<open>State keys read back\<close>

lemma representable_round: "representable n \<Longrightarrow> round_to_double n = n"
  by (simp add: representable_def round_to_double_def Let_def mod_eq_0_iff_dvd)

lemma carry_sound:
  assumes "round_to_double (hi * 10 ^ j) = x" and "carry hi j k = (s, j')"
  shows "round_to_double (s * 10 ^ j') = x"
proof (cases "hi = 10 ^ k")
  case True
  then have "(1::nat) * 10 ^ (j + k) = hi * 10 ^ j"
    by (simp add: power_add mult.commute)
  moreover from True assms(2) have "s = 1" "j' = j + k"
    by (simp_all add: carry_def)
  ultimately show ?thesis using assms(1) by simp
next
  case False
  with assms show ?thesis by (simp add: carry_def)
qed

lemma best_at_cases:
  assumes "best_at x j = Some (s, j')"
  shows "(s = x div 10 ^ j \<and> j' = j \<and> round_to_double (x div 10 ^ j * 10 ^ j) = x) \<or>
         (carry (x div 10 ^ j + 1) j (length (digits10 x) - j) = (s, j') \<and>
          round_to_double ((x div 10 ^ j + 1) * 10 ^ j) = x)"
  using assms unfolding best_at_def Let_def
  by (simp only: split: if_splits) auto

lemma best_at_sound:
  assumes "best_at x j = Some (s, j')"
  shows "round_to_double (s * 10 ^ j') = x"
  using best_at_cases [OF assms] carry_sound by blast

lemma first_some_sound: "first_some f xs = Some b \<Longrightarrow> \<exists>a \<in> set xs. f a = Some b"
  by (induction xs) (auto split: option.splits)

lemma shortest_sound:
  assumes "representable x" and "shortest x = (s, j)"
  shows "round_to_double (s * 10 ^ j) = x"
proof (cases "first_some (best_at x) (rev [0 ..< length (digits10 x)])")
  case None
  with assms show ?thesis by (simp add: shortest_def representable_round)
next
  case (Some c)
  with assms(2) have "c = (s, j)" by (simp add: shortest_def)
  with Some first_some_sound [of "best_at x" _ c] obtain a where "best_at x a = Some (s, j)"
    by blast
  then show ?thesis by (rule best_at_sound)
qed


lemma below_ten: "d < 10 \<Longrightarrow> d \<in> {0, 1, 2, 3, 4, 5, 6, 7, 8, 9 :: nat}"
  by auto

lemma is_digit_digit_char: "d < 10 \<Longrightarrow> is_digit (digit_char d)"
  using below_ten [of d] by (auto simp: is_digit_def digit_char_def)

lemma digit_val_digit_char: "d < 10 \<Longrightarrow> digit_val (digit_char d) = d"
  using below_ten [of d] by (auto simp: digit_val_def digit_char_def)

lemma digits10_all_digits: "c \<in> set (digits10 n) \<Longrightarrow> is_digit c"
proof (induction n rule: digits10.induct)
  case (1 n)
  show ?case
  proof (cases "n < 10")
    case True
    with "1.prems" show ?thesis
      by (simp add: digits10.simps [of n] is_digit_digit_char)
  next
    case False
    with "1.prems" "1.IH" show ?thesis
      by (auto simp: digits10.simps [of n] is_digit_digit_char)
  qed
qed

lemma digits10_nonempty: "digits10 n \<noteq> []"
  by (subst digits10.simps) simp

lemma decimal_value_snoc: "decimal_value (ds @ [c]) = decimal_value ds * 10 + digit_val c"
  by (simp add: decimal_value_def)

lemma decimal_value_digits10: "decimal_value (digits10 n) = n"
proof (induction n rule: digits10.induct)
  case (1 n)
  show ?case
  proof (cases "n < 10")
    case True
    then show ?thesis
      by (simp add: digits10.simps [of n] decimal_value_def digit_val_digit_char)
  next
    case False
    with "1.IH" show ?thesis
      by (simp add: digits10.simps [of n] decimal_value_snoc digit_val_digit_char)
  qed
qed

lemma decimal_value_zeros:
  "decimal_value (ds @ replicate j (CHR ''0'')) = decimal_value ds * 10 ^ j"
proof (induction j)
  case 0
  then show ?case by simp
next
  case (Suc j)
  have "ds @ replicate (Suc j) (CHR ''0'') = (ds @ replicate j (CHR ''0'')) @ [CHR ''0'']"
    by (simp add: replicate_append_same)
  then show ?case
    using Suc by (simp only: decimal_value_snoc) (simp add: digit_val_def)
qed

lemma is_digit_zero: "is_digit (CHR ''0'')"
  by (simp add: is_digit_def)

lemma digit_run_plain: "digit_run (digits10 s @ replicate j (CHR ''0''))"
  by (auto simp: digit_run_def digits10_nonempty list_all_iff digits10_all_digits is_digit_zero)

lemma space_width_digit: "is_digit c \<Longrightarrow> space_width (c # cs) = 0"
  by (auto simp: space_width_def is_digit_def is_space_def unicode_spaces_def)

lemma drop_spaces_before_digit:
  assumes "is_digit c"
  shows "drop_spaces (CHR '' '' # c # cs) = c # cs"
proof -
  have "space_width (CHR '' '' # c # cs) = 1"
    by (simp add: space_width_def is_space_def)
  then have "drop_spaces (CHR '' '' # c # cs) = drop_spaces (c # cs)"
    by (subst drop_spaces.simps) simp
  also have "\<dots> = c # cs"
    by (subst drop_spaces.simps) (simp add: space_width_digit [OF assms])
  finally show ?thesis .
qed

lemma match_at_runs:
  assumes "digit_run a" and "digit_run b"
  shows "match_at (''('' @ a @ '', '' @ b @ '')'') = Some (a, b)"
proof -
  obtain c cs where b: "b = c # cs" "is_digit c"
    using assms(2) by (cases b) (auto simp: digit_run_def)
  have a: "takeWhile is_digit (a @ '', '' @ b @ '')'') = a"
       "dropWhile is_digit (a @ '', '' @ b @ '')'') = '', '' @ b @ '')''"
    using assms(1)
    by (simp_all add: digit_run_def list_all_iff takeWhile_append2 dropWhile_append2 is_digit_def)
  have b': "takeWhile is_digit (b @ '')'') = b" "dropWhile is_digit (b @ '')'') = '')''"
    using assms(2)
    by (simp_all add: digit_run_def list_all_iff takeWhile_append2 dropWhile_append2 is_digit_def)
  have s: "drop_spaces ('' '' @ b @ '')'') = b @ '')''"
    using drop_spaces_before_digit [OF b(2), of "cs @ '')''"] b(1) by simp
  show ?thesis
    using assms a b' s by (simp add: match_at_def digit_run_def Let_def)
qed

lemma number_to_string_plain:
  assumes "x < 1000000000000000000000"
  shows "number_to_string x = digits10 (fst (shortest x)) @ replicate (snd (shortest x)) (CHR ''0'')"
  using assms by (simp add: number_to_string_def split: prod.splits)

lemma parseInt_number_to_string:
  assumes "representable x" and "x < 1000000000000000000000"
  shows "parseInt (number_to_string x) = Finite x"
proof -
  have "round_to_double (fst (shortest x) * 10 ^ snd (shortest x)) = x"
    using shortest_sound [OF assms(1), of "fst (shortest x)" "snd (shortest x)"] by simp
  moreover have "(1000000000000000000000::nat) < 2 ^ 1024" by simp
  with assms(2) have "x < 2 ^ 1024" by (rule less_trans)
  ultimately show ?thesis
    by (simp add: number_to_string_plain [OF assms(2)] parseInt_def decimal_value_zeros
        decimal_value_digits10)
qed

text \<open>The renderings of a few numbers, and the parser on a few keys: beyond \<open>2\<^sup>5\<^sup>3\<close>
  the digits written are not those of the number itself, and the digits read are
  rounded.\<close>

lemma number_to_string_two_64:
  "number_to_string 18446744073709551616 = ''18446744073709552000''"
proof -
  let ?x = "18446744073709551616 :: nat"
  have len: "length (digits10 ?x) = 20"
    by (simp add: digits10.simps)
  have js: "rev [0 ..< 20] = [19, 18, 17, 16, 15, 14, 13, 12, 11, 10, 9, 8, 7, 6, 5, 4, 3, 2, 1, 0 :: nat]"
    by code_simp
  have n19: "best_at ?x 19 = None"
    unfolding best_at_def Let_def carry_def
    by (simp add: round_to_double_def bit_length.simps digits10.simps)
  have n18: "best_at ?x 18 = None"
    unfolding best_at_def Let_def carry_def
    by (simp add: round_to_double_def bit_length.simps digits10.simps)
  have n17: "best_at ?x 17 = None"
    unfolding best_at_def Let_def carry_def
    by (simp add: round_to_double_def bit_length.simps digits10.simps)
  have n16: "best_at ?x 16 = None"
    unfolding best_at_def Let_def carry_def
    by (simp add: round_to_double_def bit_length.simps digits10.simps)
  have n15: "best_at ?x 15 = None"
    unfolding best_at_def Let_def carry_def
    by (simp add: round_to_double_def bit_length.simps digits10.simps)
  have n14: "best_at ?x 14 = None"
    unfolding best_at_def Let_def carry_def
    by (simp add: round_to_double_def bit_length.simps digits10.simps)
  have n13: "best_at ?x 13 = None"
    unfolding best_at_def Let_def carry_def
    by (simp add: round_to_double_def bit_length.simps digits10.simps)
  have n12: "best_at ?x 12 = None"
    unfolding best_at_def Let_def carry_def
    by (simp add: round_to_double_def bit_length.simps digits10.simps)
  have n11: "best_at ?x 11 = None"
    unfolding best_at_def Let_def carry_def
    by (simp add: round_to_double_def bit_length.simps digits10.simps)
  have n10: "best_at ?x 10 = None"
    unfolding best_at_def Let_def carry_def
    by (simp add: round_to_double_def bit_length.simps digits10.simps)
  have n9: "best_at ?x 9 = None"
    unfolding best_at_def Let_def carry_def
    by (simp add: round_to_double_def bit_length.simps digits10.simps)
  have n8: "best_at ?x 8 = None"
    unfolding best_at_def Let_def carry_def
    by (simp add: round_to_double_def bit_length.simps digits10.simps)
  have n7: "best_at ?x 7 = None"
    unfolding best_at_def Let_def carry_def
    by (simp add: round_to_double_def bit_length.simps digits10.simps)
  have n6: "best_at ?x 6 = None"
    unfolding best_at_def Let_def carry_def
    by (simp add: round_to_double_def bit_length.simps digits10.simps)
  have n5: "best_at ?x 5 = None"
    unfolding best_at_def Let_def carry_def
    by (simp add: round_to_double_def bit_length.simps digits10.simps)
  have n4: "best_at ?x 4 = None"
    unfolding best_at_def Let_def carry_def
    by (simp add: round_to_double_def bit_length.simps digits10.simps)
  have hit: "best_at ?x 3 = Some (18446744073709552, 3)"
    unfolding best_at_def Let_def carry_def
    by (simp add: round_to_double_def bit_length.simps digits10.simps)
  have "shortest ?x = (18446744073709552, 3)"
    by (simp add: shortest_def len js n19 n18 n17 n16 n15 n14 n13 n12 n11 n10 n9 n8 n7 n6 n5 n4 hit)
  moreover have "replicate 3 (CHR ''0'') = ''000''"
    by (simp add: numeral_3_eq_3)
  ultimately show ?thesis
    by (simp add: number_to_string_def digits10.simps digit_char_def)
qed

lemma number_to_string_ten_21: "number_to_string 1000000000000000000000 = ''1e+21''"
proof -
  let ?x = "1000000000000000000000 :: nat"
  have len: "length (digits10 ?x) = 22"
    by (simp add: digits10.simps)
  have "[0 ..< 22] = [0 ..< 21] @ [21 :: nat]"
    using upt_Suc_append [of 0 21] by simp
  then have js: "rev [0 ..< 22] = 21 # rev [0 ..< 21 :: nat]"
    by simp
  have hit: "best_at ?x 21 = Some (1, 21)"
    unfolding best_at_def Let_def carry_def
    by (simp add: round_to_double_def bit_length.simps digits10.simps)
  have "shortest ?x = (1, 21)"
    by (simp add: shortest_def len js hit)
  then show ?thesis
    by (simp add: number_to_string_def digits10.simps digit_char_def)
qed

lemma number_to_string_small:
  "number_to_string 0 = ''0'' \<and> number_to_string 3 = ''3'' \<and> number_to_string 12 = ''12''"
proof -
  have js: "rev [0 ..< 2] = [1, 0 :: nat]" by code_simp
  have a: "best_at 0 0 = Some (0, 0)" "best_at 3 0 = Some (3, 0)"
          "best_at 12 1 = None" "best_at 12 0 = Some (12, 0)"
    unfolding best_at_def Let_def carry_def
    by (simp_all add: round_to_double_def bit_length.simps digits10.simps)
  from a(3) have b: "best_at 12 (Suc 0) = None" by simp
  have "shortest 0 = (0, 0)" "shortest 3 = (3, 0)" "shortest 12 = (12, 0)"
    by (simp_all add: shortest_def digits10.simps js a b)
  then show ?thesis
    by (simp add: number_to_string_def digits10.simps digit_char_def)
qed

lemma parseStateKey_examples:
  "parseStateKey ''(9007199254740993, 7)'' = Some (Finite 9007199254740992, Finite 7) \<and>
   parseStateKey ''(18446744073709552000, 12)'' = Some (Finite 18446744073709551616, Finite 12) \<and>
   parseStateKey ''xx(5,   2)(3,4)'' = Some (Finite 5, Finite 2) \<and>
   parseStateKey ''(1e+21, 0)'' = None"
proof -
  have sp: "drop_spaces '' 7)'' = ''7)''" "drop_spaces '' 12)'' = ''12)''"
    "drop_spaces ''   2)(3,4)'' = ''2)(3,4)''"
    by (simp_all add: drop_spaces.simps space_width_def is_space_def unicode_spaces_def)
  have m: "regex_search ''(9007199254740993, 7)'' = Some (''9007199254740993'', ''7'')"
    "regex_search ''(18446744073709552000, 12)'' = Some (''18446744073709552000'', ''12'')"
    "regex_search ''xx(5,   2)(3,4)'' = Some (''5'', ''2'')"
    "regex_search ''(1e+21, 0)'' = None"
    by (simp_all add: match_at_def is_digit_def sp)
  have v: "decimal_value ''9007199254740993'' = 9007199254740993"
    "decimal_value ''18446744073709552000'' = 18446744073709552000"
    "decimal_value ''7'' = 7" "decimal_value ''5'' = 5" "decimal_value ''2'' = 2" "decimal_value ''12'' = 12"
    by (simp_all add: decimal_value_def digit_val_def)
  have r: "round_to_double 9007199254740993 = 9007199254740992"
    "round_to_double 18446744073709552000 = 18446744073709551616"
    "round_to_double 7 = 7" "round_to_double 5 = 5" "round_to_double 2 = 2" "round_to_double 12 = 12"
    unfolding round_to_double_def Let_def
    by (simp_all add: bit_length.simps)
  show ?thesis
    unfolding parseStateKey_def m by (simp add: parseInt_def v r)
qed

text \<open>
  C5, as amended. For all natural numbers \<open>x\<close> and \<open>y\<close> below \<open>10\<^sup>2\<^sup>1\<close> that a number
  can hold, \<^verbatim>\<open>parseStateKey(createStateKey(x, y))\<close> returns \<open>[x, y]\<close>.
\<close>

theorem state_key_roundtrip:
  assumes "representable x" and "x < 1000000000000000000000"
    and "representable y" and "y < 1000000000000000000000"
  shows "parseStateKey (createStateKey x y) = Some (Finite x, Finite y)"
proof -
  have "match_at (''('' @ number_to_string x @ '', '' @ number_to_string y @ '')'')
          = Some (number_to_string x, number_to_string y)"
    by (rule match_at_runs)
       (simp_all add: number_to_string_plain assms digit_run_plain)
  then show ?thesis
    by (simp add: parseStateKey_def createStateKey_def
        parseInt_number_to_string [OF assms(1,2)] parseInt_number_to_string [OF assms(3,4)])
qed

text \<open>The key of \<open>(2\<^sup>6\<^sup>4, 12)\<close> is written with rounded digits and still reads back.\<close>

theorem state_key_roundtrip_witness:
  "representable 18446744073709551616 \<and> representable 12 \<and>
   createStateKey 18446744073709551616 12 = ''(18446744073709552000, 12)'' \<and>
   parseStateKey (createStateKey 18446744073709551616 12)
     = Some (Finite 18446744073709551616, Finite 12)"
proof -
  have rx: "representable 18446744073709551616" and ry: "representable 12"
    by (simp_all add: representable_def bit_length.simps)
  have k: "createStateKey 18446744073709551616 12 = ''(18446744073709552000, 12)''"
    by (simp add: createStateKey_def number_to_string_two_64 number_to_string_small)
  have "parseStateKey (createStateKey 18446744073709551616 12)
          = Some (Finite 18446744073709551616, Finite 12)"
    using state_key_roundtrip [OF rx _ ry, of] by simp
  with rx ry k show ?thesis by simp
qed

text \<open>
  C5 as it stands, for all natural numbers, fails at \<open>x = 10\<^sup>2\<^sup>1\<close>, which a number
  holds exactly: the key is \<^verbatim>\<open>(1e+21, 0)\<close>, in which the parenthesis is not followed by
  a digit run and a comma, and the parser returns \<^verbatim>\<open>null\<close>.
\<close>

theorem state_key_exponent_counterexample:
  "representable 1000000000000000000000 \<and>
   createStateKey 1000000000000000000000 0 = ''(1e+21, 0)'' \<and>
   parseStateKey (createStateKey 1000000000000000000000 0) = None"
proof -
  have r: "representable 1000000000000000000000"
    by (simp add: representable_def bit_length.simps)
  have k: "createStateKey 1000000000000000000000 0 = ''(1e+21, 0)''"
    by (simp add: createStateKey_def number_to_string_ten_21 number_to_string_small)
  from parseStateKey_examples have "parseStateKey ''(1e+21, 0)'' = None"
    by (elim conjE)
  with r k show ?thesis by simp
qed

subsection \<open>Value Iteration always ends\<close>

lemma vi_loop_outcome:
  "(\<exists>n. k \<le> n \<and> n < k + b \<and> (\<forall>j. k \<le> j \<and> j < n \<longrightarrow> \<not> vi_delta m \<gamma> j < \<theta>) \<and>
        vi_delta m \<gamma> n < \<theta> \<and>
        vi_loop m \<gamma> \<theta> b k (vi_values m \<gamma> k) \<delta>0 =
          Converged (value_table_of m (vi_values m \<gamma> (Suc n))) (vi_delta m \<gamma> n) (Suc n))
   \<or> ((\<forall>j. k \<le> j \<and> j < k + b \<longrightarrow> \<not> vi_delta m \<gamma> j < \<theta>) \<and>
        vi_loop m \<gamma> \<theta> b k (vi_values m \<gamma> k) \<delta>0 =
          Did_not_converge (if b = 0 then \<delta>0 else vi_delta m \<gamma> (k + b - 1)))"
proof (induction b arbitrary: k \<delta>0)
  case 0
  then show ?case by simp
next
  case (Suc b)
  show ?case
  proof (cases "vi_delta m \<gamma> k < \<theta>")
    case True
    then have "vi_loop m \<gamma> \<theta> (Suc b) k (vi_values m \<gamma> k) \<delta>0 =
          Converged (value_table_of m (vi_values m \<gamma> (Suc k))) (vi_delta m \<gamma> k) (Suc k)"
      by (simp add: vi_delta_def Let_def)
    with True show ?thesis by (intro disjI1 exI [of _ k]) simp
  next
    case False
    then have step: "vi_loop m \<gamma> \<theta> (Suc b) k (vi_values m \<gamma> k) \<delta>0 =
          vi_loop m \<gamma> \<theta> b (Suc k) (vi_values m \<gamma> (Suc k)) (vi_delta m \<gamma> k)"
      by (simp add: vi_delta_def Let_def)
    from Suc.IH [of "Suc k" "vi_delta m \<gamma> k"] show ?thesis
    proof
      assume "\<exists>n. Suc k \<le> n \<and> n < Suc k + b \<and>
        (\<forall>j. Suc k \<le> j \<and> j < n \<longrightarrow> \<not> vi_delta m \<gamma> j < \<theta>) \<and> vi_delta m \<gamma> n < \<theta> \<and>
        vi_loop m \<gamma> \<theta> b (Suc k) (vi_values m \<gamma> (Suc k)) (vi_delta m \<gamma> k) =
          Converged (value_table_of m (vi_values m \<gamma> (Suc n))) (vi_delta m \<gamma> n) (Suc n)"
      then obtain n where n: "Suc k \<le> n" "n < Suc k + b"
        "\<forall>j. Suc k \<le> j \<and> j < n \<longrightarrow> \<not> vi_delta m \<gamma> j < \<theta>" "vi_delta m \<gamma> n < \<theta>"
        "vi_loop m \<gamma> \<theta> b (Suc k) (vi_values m \<gamma> (Suc k)) (vi_delta m \<gamma> k) =
          Converged (value_table_of m (vi_values m \<gamma> (Suc n))) (vi_delta m \<gamma> n) (Suc n)"
        by blast
      have "\<forall>j. k \<le> j \<and> j < n \<longrightarrow> \<not> vi_delta m \<gamma> j < \<theta>"
      proof (intro allI impI)
        fix j assume "k \<le> j \<and> j < n"
        then have "j = k \<or> (Suc k \<le> j \<and> j < n)" by arith
        with False n(3) show "\<not> vi_delta m \<gamma> j < \<theta>" by blast
      qed
      with n step show ?thesis by (intro disjI1 exI [of _ n]) simp
    next
      assume a: "(\<forall>j. Suc k \<le> j \<and> j < Suc k + b \<longrightarrow> \<not> vi_delta m \<gamma> j < \<theta>) \<and>
        vi_loop m \<gamma> \<theta> b (Suc k) (vi_values m \<gamma> (Suc k)) (vi_delta m \<gamma> k) =
          Did_not_converge (if b = 0 then vi_delta m \<gamma> k else vi_delta m \<gamma> (Suc k + b - 1))"
      have "\<forall>j. k \<le> j \<and> j < k + Suc b \<longrightarrow> \<not> vi_delta m \<gamma> j < \<theta>"
      proof (intro allI impI)
        fix j assume "k \<le> j \<and> j < k + Suc b"
        then have "j = k \<or> (Suc k \<le> j \<and> j < Suc k + b)" by arith
        with False a show "\<not> vi_delta m \<gamma> j < \<theta>" by blast
      qed
      moreover have "vi_loop m \<gamma> \<theta> (Suc b) k (vi_values m \<gamma> k) \<delta>0 =
          Did_not_converge (vi_delta m \<gamma> (k + Suc b - 1))"
        using a step by (cases b) simp_all
      ultimately show ?thesis by simp
    qed
  qed
qed

text \<open>
  C4. For every finite model, every \<open>\<gamma>\<close> and \<open>\<theta>\<close> and every safety bound \<open>cap > 0\<close>, a
  run of Value Iteration returns, and it returns one of two things. Either some sweep
  \<open>n + 1 \<le> cap\<close> is the first whose \<open>\<delta>\<close> is below \<open>\<theta>\<close>, and the run is converged with the
  values and the \<open>\<delta>\<close> of that sweep; or no sweep up to the bound has \<open>\<delta> < \<theta>\<close>, and the run
  is reported as not converged with the \<open>\<delta>\<close> of the last sweep made. An unconverged value
  function is never returned as converged.
\<close>

theorem value_iteration_terminates:
  assumes "0 < cap"
  shows "(\<exists>n < cap. (\<forall>j < n. \<not> vi_delta m \<gamma> j < \<theta>) \<and> vi_delta m \<gamma> n < \<theta> \<and>
            run_value_iteration m \<gamma> \<theta> cap =
              Converged (value_table_of m (vi_values m \<gamma> (Suc n))) (vi_delta m \<gamma> n) (Suc n))
         \<or> ((\<forall>j < cap. \<not> vi_delta m \<gamma> j < \<theta>) \<and>
            run_value_iteration m \<gamma> \<theta> cap = Did_not_converge (vi_delta m \<gamma> (cap - 1)))"
  using vi_loop_outcome [of 0 cap m \<gamma> \<theta> 0] assms
  by (simp add: run_value_iteration_def)

text \<open>With \<open>\<gamma> = 1\<close> the looping state loses 1 in every sweep and the run stops at the
  bound; the corridor converges in its third sweep.\<close>

theorem value_iteration_terminates_witness:
  "(0::nat) < 3 \<and>
   run_value_iteration treadmill 1 (1 / 10000) 3 = Did_not_converge 1 \<and>
   run_value_iteration corridor (99 / 100) (1 / 10000) 5
     = Converged [(0, 89 / 10), (1, 10), (2, 0)] 0 3"
proof -
  have a: "run_value_iteration treadmill 1 (1 / 10000) 3 = Did_not_converge 1"
    using value_iteration_terminates [of 3 treadmill 1 "1 / 10000"]
    by (simp add: run_value_iteration_def numeral_3_eq_3 treadmill_def sweep_def
        sweep_delta_def backup_def Let_def)
  have b: "run_value_iteration corridor (99 / 100) (1 / 10000) 5
     = Converged [(0, 89 / 10), (1, 10), (2, 0)] 0 3"
    by (simp add: run_value_iteration_def eval_nat_numeral corridor_def sweep_def
        sweep_delta_def backup_def Let_def value_table_of_def)
  from a b show ?thesis by simp
qed

subsection \<open>SARSA executes the action it selected\<close>

lemma sarsa_steps_on_policy:
  "on_policy_from s a (snd (sarsa_steps E rnd \<alpha> \<gamma> \<epsilon> budget i Q s a))"
proof (induction budget arbitrary: i Q s a)
  case 0
  then show ?case by simp
next
  case (Suc budget)
  obtain s' r d where st: "env_step E s a (chance rnd i) = (s', r, d)"
    by (cases "env_step E s a (chance rnd i)") auto
  define a' where "a' = epsilon_greedy rnd (Suc i) \<epsilon> (n_actions E) Q s'"
  define tr where "tr = \<lparr> tr_state = s, tr_action = a, tr_reward = r, tr_next_state = s',
                     tr_done = d, tr_next_action = a' \<rparr>"
  have "on_policy_from s' a'
      (snd (sarsa_steps E rnd \<alpha> \<gamma> \<epsilon> budget (Suc i) (td_update \<alpha> \<gamma> Q tr) s' a'))"
    by (rule Suc.IH)
  then show ?case
    by (cases d) (auto simp: st a'_def tr_def Let_def split: prod.splits)
qed

lemma on_policy_from_nth:
  "on_policy_from s a trs \<Longrightarrow> Suc k < length trs \<Longrightarrow>
     tr_action (trs ! Suc k) = tr_next_action (trs ! k) \<and>
     tr_state (trs ! Suc k) = tr_next_state (trs ! k)"
proof (induction trs arbitrary: s a k)
  case Nil
  then show ?case by simp
next
  case (Cons tr rest)
  show ?case
  proof (cases k)
    case 0
    with Cons.prems show ?thesis by (cases rest) auto
  next
    case (Suc k')
    with Cons.prems Cons.IH [of "tr_next_state tr" "tr_next_action tr" k'] show ?thesis by simp
  qed
qed

lemma sarsa_steps_updates:
  "fst (sarsa_steps E rnd \<alpha> \<gamma> \<epsilon> budget i Q s a)
     = foldl (td_update \<alpha> \<gamma>) Q (snd (sarsa_steps E rnd \<alpha> \<gamma> \<epsilon> budget i Q s a))"
proof (induction budget arbitrary: i Q s a)
  case 0
  then show ?case by simp
next
  case (Suc budget)
  obtain s' r d where st: "env_step E s a (chance rnd i) = (s', r, d)"
    by (cases "env_step E s a (chance rnd i)") auto
  define a' where "a' = epsilon_greedy rnd (Suc i) \<epsilon> (n_actions E) Q s'"
  define tr where "tr = \<lparr> tr_state = s, tr_action = a, tr_reward = r, tr_next_state = s',
                     tr_done = d, tr_next_action = a' \<rparr>"
  have "fst (sarsa_steps E rnd \<alpha> \<gamma> \<epsilon> budget (Suc i) (td_update \<alpha> \<gamma> Q tr) s' a')
     = foldl (td_update \<alpha> \<gamma>) (td_update \<alpha> \<gamma> Q tr)
         (snd (sarsa_steps E rnd \<alpha> \<gamma> \<epsilon> budget (Suc i) (td_update \<alpha> \<gamma> Q tr) s' a'))"
    by (rule Suc.IH)
  then show ?case
    by (cases d) (auto simp: st a'_def tr_def Let_def split: prod.splits)
qed


lemma sarsa_steps_consistent:
  "sarsa_consistent E rnd \<alpha> \<gamma> \<epsilon> i Q (snd (sarsa_steps E rnd \<alpha> \<gamma> \<epsilon> budget i Q s a))"
proof (induction budget arbitrary: i Q s a)
  case 0
  then show ?case by simp
next
  case (Suc budget)
  obtain s' r d where st: "env_step E s a (chance rnd i) = (s', r, d)"
    by (cases "env_step E s a (chance rnd i)") auto
  define a' where "a' = epsilon_greedy rnd (Suc i) \<epsilon> (n_actions E) Q s'"
  define tr where "tr = \<lparr> tr_state = s, tr_action = a, tr_reward = r, tr_next_state = s',
                     tr_done = d, tr_next_action = a' \<rparr>"
  have "sarsa_consistent E rnd \<alpha> \<gamma> \<epsilon> (Suc i) (td_update \<alpha> \<gamma> Q tr)
      (snd (sarsa_steps E rnd \<alpha> \<gamma> \<epsilon> budget (Suc i) (td_update \<alpha> \<gamma> Q tr) s' a'))"
    by (rule Suc.IH)
  then show ?case
    by (cases d) (auto simp: st a'_def tr_def Let_def split: prod.splits)
qed

text \<open>
  C3. In every SARSA episode, for every recorded transition: the transition is the
  environment's answer to the recorded action; its next action \<open>A'\<close> is the \<open>\<epsilon>\<close>-greedy
  selection from Q at the next state, made on the Q-table as it was before the
  transition's update; the update \<open>Q(S,A) \<leftarrow> Q(S,A) + \<alpha> [R + \<gamma> Q(S',A') (1 - done) - Q(S,A)]\<close>
  is made with that \<open>A'\<close>; and the action executed on the following step is exactly
  that \<open>A'\<close>, in the state \<open>S'\<close>. Nothing is selected again in between.
\<close>

theorem sarsa_on_policy:
  assumes "sarsa_episode E rnd \<alpha> \<gamma> \<epsilon> max_steps i Q = (Q', trace)"
  shows "on_policy_from (reset E) (epsilon_greedy rnd i \<epsilon> (n_actions E) Q (reset E)) trace \<and>
         sarsa_consistent E rnd \<alpha> \<gamma> \<epsilon> i Q trace \<and>
         Q' = foldl (td_update \<alpha> \<gamma>) Q trace \<and>
         (\<forall>k. Suc k < length trace \<longrightarrow>
              tr_action (trace ! Suc k) = tr_next_action (trace ! k) \<and>
              tr_state (trace ! Suc k) = tr_next_state (trace ! k))"
proof -
  let ?s = "reset E" and ?a = "epsilon_greedy rnd i \<epsilon> (n_actions E) Q (reset E)"
  from assms have e: "sarsa_steps E rnd \<alpha> \<gamma> \<epsilon> max_steps i Q ?s ?a = (Q', trace)"
    by (simp add: sarsa_episode_def Let_def)
  have op: "on_policy_from ?s ?a trace"
    using sarsa_steps_on_policy [of ?s ?a E rnd \<alpha> \<gamma> \<epsilon> max_steps i Q] e by simp
  moreover have "sarsa_consistent E rnd \<alpha> \<gamma> \<epsilon> i Q trace"
    using sarsa_steps_consistent [of E rnd \<alpha> \<gamma> \<epsilon> i Q max_steps ?s ?a] e by simp
  moreover have "Q' = foldl (td_update \<alpha> \<gamma>) Q trace"
    using sarsa_steps_updates [of E rnd \<alpha> \<gamma> \<epsilon> max_steps i Q ?s ?a] e by simp
  ultimately show ?thesis
    using on_policy_from_nth [OF op] by blast
qed

text \<open>A run of three steps on the walk: the actions executed are 0, 1, 0 and the actions
  selected for the updates are 1, 0, 1 (the second one greedily, a tie that goes to
  action 0).\<close>

theorem sarsa_on_policy_witness:
  "map (\<lambda>tr. (tr_state tr, tr_action tr, tr_next_action tr))
     (snd (sarsa_episode walk dice (1/10) (99/100) (1/10) 3 0 (\<lambda>_. 0)))
     = [(0, 0, 1), (0, 1, 0), (1, 0, 1)] \<and>
   on_policy_from 0 0 (snd (sarsa_episode walk dice (1/10) (99/100) (1/10) 3 0 (\<lambda>_. 0)))"
proof -
  let ?run = "sarsa_episode walk dice (1/10) (99/100) (1/10) 3 0 (\<lambda>_. 0)"
  have t: "map (\<lambda>tr. (tr_state tr, tr_action tr, tr_next_action tr)) (snd ?run)
             = [(0, 0, 1), (0, 1, 0), (1, 0, 1)]"
    by (simp add: sarsa_episode_def walk_def dice_def epsilon_greedy_def numeral_3_eq_3 Let_def
        greedy_action_def td_update_def)
  have "on_policy_from (reset walk) (epsilon_greedy dice 0 (1/10) (n_actions walk) (\<lambda>_. 0) (reset walk))
          (snd ?run)"
    using sarsa_on_policy [of walk dice "1/10" "99/100" "1/10" 3 0 "\<lambda>_. 0" "fst ?run" "snd ?run"]
    by simp
  then have "on_policy_from 0 0 (snd ?run)"
    by (simp add: walk_def dice_def epsilon_greedy_def)
  with t show ?thesis by simp
qed

subsection \<open>Stopping a training session\<close>

lemma stop_settled: "settled s \<Longrightarrow> stop s = s"
  by (auto simp: settled_def stop_def)

lemma drive_settled: "settled s \<Longrightarrow> settled (drive E s)"
  by (auto simp: settled_def drive_def split: driver_phase.splits sum.splits)

lemma drive_terminal: "lifecycle_state s \<noteq> Running \<Longrightarrow> drive E s = s"
  by (simp add: drive_def)

lemma run_inputs_settled:
  "settled s \<Longrightarrow> run_inputs E inputs s = (drive E ^^ count_list inputs Drive) s"
proof (induction inputs arbitrary: s)
  case Nil
  then show ?case by (simp add: run_inputs_def)
next
  case (Cons x xs)
  show ?case
  proof (cases x)
    case Stop_training
    with Cons show ?thesis by (simp add: run_inputs_def stop_settled)
  next
    case Drive
    with Cons.IH [of "drive E s"] Cons.prems show ?thesis
      by (simp add: run_inputs_def drive_settled funpow_swap1)
  qed
qed

lemma drive_twice_terminal:
  "cancellation_flag s \<Longrightarrow> lifecycle_state (drive E (drive E s)) \<noteq> Running"
  by (auto simp: drive_def split: driver_phase.splits sum.splits)

lemma funpow_drive_terminal:
  "lifecycle_state s \<noteq> Running \<Longrightarrow> (drive E ^^ n) s = s"
  by (induction n) (simp_all add: drive_terminal)

lemma drive_many:
  assumes "cancellation_flag s" and "2 \<le> n"
  shows "(drive E ^^ n) s = drive E (drive E s)"
proof -
  obtain k where n: "n = k + 2" using assms(2) by (metis add.commute le_Suc_ex)
  have "(drive E ^^ n) s = (drive E ^^ k) ((drive E ^^ 2) s)"
    unfolding n by (simp only: funpow_add o_apply)
  also have "(drive E ^^ 2) s = drive E (drive E s)" by (simp add: numeral_2_eq_2)
  finally show ?thesis
    using funpow_drive_terminal [OF drive_twice_terminal [OF assms(1)]] by simp
qed


lemma emitted_after_stop: "emitted (stop s) = emitted s"
  by (simp add: stop_def)

lemma emitted_after_one:
  "lifecycle_state s = Running \<Longrightarrow>
     emitted (drive E (stop s)) = emitted s @ take 1 (wind_down E s)"
  by (auto simp: drive_def stop_def wind_down_def split: driver_phase.splits sum.splits)

lemma emitted_after_two:
  "lifecycle_state s = Running \<Longrightarrow>
     emitted (drive E (drive E (stop s))) = emitted s @ wind_down E s"
  by (auto simp: drive_def stop_def wind_down_def split: driver_phase.splits sum.splits)

lemma cancelled_after_two:
  "lifecycle_state s = Running \<Longrightarrow>
   phase s = Check_cancellation \<or> (\<exists>e'. run_unit E (engine_state s) = Inr e') \<Longrightarrow>
     lifecycle_state (drive E (drive E (stop s))) = Cancelled \<and>
     last (wind_down E s) =
       Cancelled_event (value_function E (engine_state (drive E (drive E (stop s)))))
         (history (drive E (drive E (stop s))))"
  by (auto simp: drive_def stop_def wind_down_def split: driver_phase.splits sum.splits)

lemma wind_down_prefix_shape:
  "\<not> list_ex is_completed (take n (wind_down E s)) \<and>
   length (filter is_progress (take n (wind_down E s))) \<le> 1 \<and>
   (phase s = Check_cancellation \<longrightarrow> \<not> list_ex is_progress (take n (wind_down E s))) \<and>
   (\<forall>i < length (take n (wind_down E s)).
       is_cancelled (take n (wind_down E s) ! i) \<longrightarrow> Suc i = length (take n (wind_down E s)))"
proof -
  consider "n = 0" | "n = 1" | "2 \<le> n" by linarith
  then show ?thesis
  proof cases
    case 1
    then show ?thesis by simp
  next
    case 2
    then show ?thesis
      by (auto simp: wind_down_def split: driver_phase.splits sum.splits)
  next
    case 3
    have "length (wind_down E s) \<le> 2"
      by (simp add: wind_down_def split: driver_phase.splits sum.splits)
    with 3 have "take n (wind_down E s) = wind_down E s" by simp
    then show ?thesis
      by (auto simp: wind_down_def less_Suc_eq split: driver_phase.splits sum.splits)
  qed
qed

lemma after_stop_cases:
  assumes "lifecycle_state s = Running"
  shows "emitted (run_inputs E inputs (stop s)) =
           emitted s @ take (count_list inputs Drive) (wind_down E s)"
proof -
  have st: "settled (stop s)" "cancellation_flag (stop s)"
    using assms by (simp_all add: settled_def stop_def)
  let ?n = "count_list inputs Drive"
  have r: "run_inputs E inputs (stop s) = (drive E ^^ ?n) (stop s)"
    by (rule run_inputs_settled [OF st(1)])
  have len: "length (wind_down E s) \<le> 2"
    by (simp add: wind_down_def split: driver_phase.splits sum.splits)
  consider "?n = 0" | "?n = 1" | "2 \<le> ?n" by linarith
  then show ?thesis
  proof cases
    case 1
    then show ?thesis by (simp add: r emitted_after_stop)
  next
    case 2
    then show ?thesis by (simp add: r emitted_after_one [OF assms])
  next
    case 3
    then show ?thesis
      using len by (simp add: r drive_many [OF st(2) 3] emitted_after_two [OF assms])
  qed
qed


lemma session_after_first_progress_reached:
  "map_option (drive counting_engine \<circ> drive counting_engine) (start True 3 0)
     = Some session_after_first_progress"
  by (simp add: start_def drive_def counting_engine_def session_after_first_progress_def)

lemma uninterrupted_run_completes:
  "emitted ((drive counting_engine ^^ 4) session_after_first_progress)
     = [Training_started 3, Progress 1 1 1, Progress 2 2 2, Progress 3 3 3,
        Completed_event 3 3 [1, 2, 3]]"
  by (simp add: drive_def counting_engine_def session_after_first_progress_def eval_nat_numeral)

lemma failed_after_one:
  assumes "lifecycle_state s = Running" and "phase s = Run_increment"
    and "run_unit E (engine_state s) = Inl reason"
  shows "lifecycle_state (drive E (stop s)) = Failed \<and> wind_down E s = [Failed_event reason]"
  using assms by (simp add: drive_def stop_def wind_down_def)

lemma drive_some:
  assumes "lifecycle_state (drive E s) \<noteq> Running" and "0 < n"
  shows "(drive E ^^ n) s = drive E s"
proof -
  obtain k where n: "n = Suc k" using assms(2) by (cases n) auto
  have "(drive E ^^ n) s = (drive E ^^ k) (drive E s)"
    unfolding n by (simp add: funpow_swap1)
  then show ?thesis using funpow_drive_terminal [OF assms(1)] by simp
qed

lemma session_also_reached_faltering:
  "map_option (drive faltering_engine \<circ> drive faltering_engine) (start True 3 0)
     = Some session_after_first_progress"
  by (simp add: start_def drive_def faltering_engine_def session_after_first_progress_def)

text \<open>
  C2, as amended. Let a stop request reach a running session (in particular one that has
  emitted its first progress event and has not completed), and let anything happen
  afterwards: further stop requests and turns of the driver in any order. Then the
  session only adds events to those it had emitted and never emits a completed event. It
  emits at most one further progress event, the one of the increment that was due when
  the request arrived, and none when the request arrived at an increment boundary.
  Unless that increment fails, the session is cancelled after two turns of the driver,
  and its last event is the cancelled event carrying the value function and the history
  reached so far; a cancelled event, once emitted, is the last event of the session. If
  that increment fails, the session ends as failed with the failed event instead.
\<close>

theorem stop_yields_cancelled:
  assumes "lifecycle_state s = Running"
  shows "emitted (run_inputs E inputs (stop s))
           = emitted s @ events_since s (run_inputs E inputs (stop s)) \<and>
         \<not> list_ex is_completed (events_since s (run_inputs E inputs (stop s))) \<and>
         (\<forall>i < length (events_since s (run_inputs E inputs (stop s))).
             is_cancelled (events_since s (run_inputs E inputs (stop s)) ! i) \<longrightarrow>
             Suc i = length (events_since s (run_inputs E inputs (stop s)))) \<and>
         length (filter is_progress (events_since s (run_inputs E inputs (stop s)))) \<le> 1 \<and>
         (phase s = Check_cancellation \<longrightarrow>
             \<not> list_ex is_progress (events_since s (run_inputs E inputs (stop s)))) \<and>
         (2 \<le> count_list inputs Drive \<and>
          (phase s = Check_cancellation \<or> (\<exists>e'. run_unit E (engine_state s) = Inr e')) \<longrightarrow>
             lifecycle_state (run_inputs E inputs (stop s)) = Cancelled \<and>
             events_since s (run_inputs E inputs (stop s)) \<noteq> [] \<and>
             last (events_since s (run_inputs E inputs (stop s))) =
               Cancelled_event (value_function E (engine_state (run_inputs E inputs (stop s))))
                 (history (run_inputs E inputs (stop s)))) \<and>
         (0 < count_list inputs Drive \<and> phase s = Run_increment \<and>
          run_unit E (engine_state s) = Inl reason \<longrightarrow>
             lifecycle_state (run_inputs E inputs (stop s)) = Failed \<and>
             events_since s (run_inputs E inputs (stop s)) = [Failed_event reason])"
proof -
  let ?t = "run_inputs E inputs (stop s)" and ?n = "count_list inputs Drive"
  have new: "events_since s ?t = take ?n (wind_down E s)"
    by (simp add: events_since_def after_stop_cases [OF assms])
  have a: "emitted ?t = emitted s @ events_since s ?t"
    by (simp add: new after_stop_cases [OF assms])
  have c: "lifecycle_state ?t = Cancelled \<and> events_since s ?t \<noteq> [] \<and>
           last (events_since s ?t) =
             Cancelled_event (value_function E (engine_state ?t)) (history ?t)"
    if n: "2 \<le> ?n"
      and ok: "phase s = Check_cancellation \<or> (\<exists>e'. run_unit E (engine_state s) = Inr e')"
  proof -
    have st: "settled (stop s)" "cancellation_flag (stop s)"
      using assms by (simp_all add: settled_def stop_def)
    have t: "?t = drive E (drive E (stop s))"
      by (simp add: run_inputs_settled [OF st(1)] drive_many [OF st(2) n])
    have "length (wind_down E s) \<le> 2" "wind_down E s \<noteq> []"
      by (simp_all add: wind_down_def split: driver_phase.splits sum.splits)
    with n have "events_since s ?t = wind_down E s" "events_since s ?t \<noteq> []"
      by (simp_all add: new)
    with cancelled_after_two [OF assms ok, of] t show ?thesis by simp
  qed
  have d: "lifecycle_state ?t = Failed \<and> events_since s ?t = [Failed_event reason]"
    if n: "0 < ?n" and ph: "phase s = Run_increment"
      and f: "run_unit E (engine_state s) = Inl reason"
  proof -
    have st: "settled (stop s)"
      using assms by (simp add: settled_def stop_def)
    note one = failed_after_one [OF assms ph f]
    then have "lifecycle_state (drive E (stop s)) \<noteq> Running" by simp
    then have t: "?t = drive E (stop s)"
      by (simp add: run_inputs_settled [OF st] drive_some [OF _ n])
    have "events_since s ?t = [Failed_event reason]"
      using n one by (cases "?n") (simp_all add: new)
    moreover have "lifecycle_state ?t = Failed"
      using one by (simp add: t)
    ultimately show ?thesis by simp
  qed
  from a c d wind_down_prefix_shape [of ?n E s] show ?thesis
    unfolding new by blast
qed

text \<open>Stopped after its first progress event, with the second increment due, the
  counting session emits the progress event of that increment and then the cancelled
  event with the partial results; left alone it would have completed after three units.\<close>

theorem stop_yields_cancelled_witness:
  "lifecycle_state session_after_first_progress = Running \<and>
   emitted (run_inputs counting_engine [Drive, Stop_training, Drive, Drive]
              (stop session_after_first_progress))
     = [Training_started 3, Progress 1 1 1, Progress 2 2 2, Cancelled_event 2 [1, 2]] \<and>
   lifecycle_state (run_inputs counting_engine [Drive, Stop_training, Drive, Drive]
              (stop session_after_first_progress)) = Cancelled"
proof -
  let ?t = "run_inputs counting_engine [Drive, Stop_training, Drive, Drive]
              (stop session_after_first_progress)"
  have r: "lifecycle_state session_after_first_progress = Running"
    by (simp add: session_after_first_progress_def)
  have e: "emitted ?t
     = [Training_started 3, Progress 1 1 1, Progress 2 2 2, Cancelled_event 2 [1, 2]]"
    by (simp add: run_inputs_def stop_def drive_def counting_engine_def
        session_after_first_progress_def)
  note th = stop_yields_cancelled [OF r, of counting_engine "[Drive, Stop_training, Drive, Drive]"]
  then have imp: "2 \<le> count_list [Drive, Stop_training, Drive, Drive] Drive \<and>
      (phase session_after_first_progress = Check_cancellation \<or>
       (\<exists>e'. run_unit counting_engine (engine_state session_after_first_progress) = Inr e'))
      \<longrightarrow> lifecycle_state ?t = Cancelled"
    by blast
  have "2 \<le> count_list [Drive, Stop_training, Drive, Drive] Drive"
    by simp
  moreover have "\<exists>e'. run_unit counting_engine (engine_state session_after_first_progress) = Inr e'"
    by (simp add: counting_engine_def)
  ultimately have "lifecycle_state ?t = Cancelled"
    using imp by blast
  with r e show ?thesis by simp
qed

text \<open>
  C2 as it stands fails twice on the session of the specification. A stop request that
  arrives while the second increment is due is followed by the progress event of that
  increment before the cancelled event, since the flag is checked only after the progress
  event has been emitted; and when that increment fails, the session ends with the failed
  event and never emits a cancelled event.
\<close>

theorem stop_training_counterexample:
  "events_since session_after_first_progress
     (run_inputs counting_engine [Drive, Drive] (stop session_after_first_progress))
     = [Progress 2 2 2, Cancelled_event 2 [1, 2]] \<and>
   events_since session_after_first_progress
     (run_inputs faltering_engine [Drive, Drive, Drive] (stop session_after_first_progress))
     = [Failed_event ''did not converge''] \<and>
   lifecycle_state
     (run_inputs faltering_engine [Drive, Drive, Drive] (stop session_after_first_progress))
     = Failed"
  by (simp add: events_since_def run_inputs_def stop_def drive_def counting_engine_def
      faltering_engine_def session_after_first_progress_def)

end
